theory Spec2Isabelle
  imports Main "HOL-Library.Code_Target_Nat"
begin

section \<open>Move integers and aborts\<close>

text \<open>
  The contracts are written in Move. A Move transaction either runs to completion or
  aborts; an abort carries a code and leaves no effect. Every operation of the model
  returns \<open>abort + 'a\<close>: \<open>Inl\<close> is the abort, \<open>Inr\<close> the result together with the
  updated objects.

  Move's \<open>u64\<close> and \<open>u128\<close> do not wrap around: addition, multiplication and a
  narrowing cast abort when the result does not fit, subtraction aborts below zero and
  division aborts on a zero divisor. The model keeps the values as \<open>nat\<close> and writes
  each of those checks out.
\<close>

datatype abort =
    ArithmeticError
  | VectorIndexOutOfBounds
  | TableKeyMissing
  | TableKeyExists
  | EKeyAlreadyExists
  | ENotEnough
  | EBadWitness
  | EInsufficientBalance
  | EInsufficientLiquidity
  | ESlippageTooHigh
  | ENotAuthorized
  | EInsufficientDataSources
  | EInvalidConfidence
  | ECircuitBreakerTriggered

type_synonym 'a result = "abort + 'a"

definition abort_bind :: "'a result \<Rightarrow> ('a \<Rightarrow> 'b result) \<Rightarrow> 'b result" where
  "abort_bind m f = (case m of Inl e \<Rightarrow> Inl e | Inr x \<Rightarrow> f x)"

definition assert_that :: "bool \<Rightarrow> abort \<Rightarrow> unit result" where
  "assert_that c e = (if c then Inr () else Inl e)"

definition U64_LIMIT :: nat where
  "U64_LIMIT = 2 ^ 64"

definition U128_LIMIT :: nat where
  "U128_LIMIT = 2 ^ 128"

definition u64_add :: "nat \<Rightarrow> nat \<Rightarrow> nat result" where
  "u64_add a b = (if a + b < U64_LIMIT then Inr (a + b) else Inl ArithmeticError)"

definition u64_sub :: "nat \<Rightarrow> nat \<Rightarrow> nat result" where
  "u64_sub a b = (if b \<le> a then Inr (a - b) else Inl ArithmeticError)"

definition u64_mul :: "nat \<Rightarrow> nat \<Rightarrow> nat result" where
  "u64_mul a b = (if a * b < U64_LIMIT then Inr (a * b) else Inl ArithmeticError)"

definition u64_div :: "nat \<Rightarrow> nat \<Rightarrow> nat result" where
  "u64_div a b = (if b = 0 then Inl ArithmeticError else Inr (a div b))"

definition as_u64 :: "nat \<Rightarrow> nat result" where
  "as_u64 a = (if a < U64_LIMIT then Inr a else Inl ArithmeticError)"

text \<open>
  \<open>balance::join\<close> adds with the \<open>u64\<close> check; \<open>balance::split\<close> (and \<open>coin::split\<close>)
  aborts with \<open>ENotEnough\<close> when the balance is smaller than the amount taken.
\<close>

definition balance_join :: "nat \<Rightarrow> nat \<Rightarrow> nat result" where
  "balance_join self v = u64_add self v"

definition balance_split :: "nat \<Rightarrow> nat \<Rightarrow> (nat \<times> nat) result" where
  "balance_split self v = (if v \<le> self then Inr (self - v, v) else Inl ENotEnough)"

section \<open>The liquidity pool (module defi\_protocol)\<close>

type_synonym address = nat

record LiquidityPool =
  token_a_reserve :: nat
  token_b_reserve :: nat
  lp_token_supply :: nat
  swap_fee_rate :: nat
  last_price :: nat
  price_cumulative_last :: nat
  block_timestamp_last :: nat
  k_constant :: nat
  amplification_coefficient :: nat
  is_stable_pool :: bool

record UserProfile =
  owner :: address
  total_liquidity_provided :: nat
  total_volume_traded :: nat
  governance_power :: nat
  yield_farming_score :: nat
  last_activity :: nat
  tier_level :: nat
  fee_discount :: nat

text \<open>
  Of \<open>ProtocolState\<close> the pool operations read and write the administrator, the pause
  flag, the fee rate, the locked value and the user profiles, which the source keeps as
  dynamic fields of the protocol object keyed by the caller's address.
\<close>

record ProtocolState =
  admin :: address
  total_value_locked :: nat
  trading_fee_rate :: nat
  governance_threshold :: nat
  is_paused :: bool
  profiles :: "address \<rightharpoonup> UserProfile"

record TokenSwapped =
  trader :: address
  amount_in :: nat
  amount_out :: nat
  fee_amount :: nat
  price_impact :: nat


record FlashLoan =
  amount :: nat
  fee :: nat

subsection \<open>Integer square root\<close>

text \<open>
  The loop of \<open>sqrt_u128\<close>. The product \<open>guess * guess\<close> is a \<open>u128\<close> product and
  aborts when it does not fit; the division is guarded by the loop condition, which
  makes \<open>guess\<close> positive.
\<close>

function sqrt_loop :: "nat \<Rightarrow> nat \<Rightarrow> nat result" where
  "sqrt_loop x guess =
     (if \<not> guess * guess < U128_LIMIT then Inl ArithmeticError
      else if guess * guess > x then
        (if \<not> guess + x div guess < U128_LIMIT then Inl ArithmeticError
         else sqrt_loop x ((guess + x div guess) div 2))
      else Inr guess)"
  by pat_completeness auto
termination
proof (relation "measure (\<lambda>(x, guess). guess)")
  show "wf (measure (\<lambda>(x, guess). guess))" by simp
next
  fix x guess :: nat
  assume "x < guess * guess"
  then have pos: "0 < guess" by (cases guess) simp_all
  with \<open>x < guess * guess\<close> have "x div guess < guess"
    by (simp add: div_less_iff_less_mult)
  then have "(guess + x div guess) div 2 < guess" by linarith
  then show "((x, (guess + x div guess) div 2), (x, guess)) \<in> measure (\<lambda>(x, guess). guess)"
    by simp
qed

declare sqrt_loop.simps [simp del]

text \<open>
  \<open>sqrt_u128\<close>: zero is returned at once; the first guess is \<open>x / 2\<close>, or 1 when
  that is zero.
\<close>

definition sqrt_u128 :: "nat \<Rightarrow> nat result" where
  "sqrt_u128 x =
     (if x = 0 then Inr 0
      else let guess = x div 2;
               guess = (if guess = 0 then 1 else guess)
           in sqrt_loop x guess)"

definition u128_mul :: "nat \<Rightarrow> nat \<Rightarrow> nat result" where
  "u128_mul a b = (if a * b < U128_LIMIT then Inr (a * b) else Inl ArithmeticError)"

subsection \<open>Pricing\<close>

definition calculate_constant_product_output :: "nat \<Rightarrow> nat \<Rightarrow> nat \<Rightarrow> nat \<Rightarrow> nat result" where
  "calculate_constant_product_output amount_in' reserve_in reserve_out fee_rate =
     abort_bind (u64_sub 10000 fee_rate) (\<lambda>keep.
     abort_bind (u64_mul amount_in' keep) (\<lambda>amount_in_with_fee.
     abort_bind (u64_mul amount_in_with_fee reserve_out) (\<lambda>numerator.
     abort_bind (u64_mul reserve_in 10000) (\<lambda>scaled_reserve.
     abort_bind (u64_add scaled_reserve amount_in_with_fee) (\<lambda>denominator.
     u64_div numerator denominator)))))"

definition calculate_stable_swap_output :: "nat \<Rightarrow> nat \<Rightarrow> nat \<Rightarrow> nat \<Rightarrow> nat result" where
  "calculate_stable_swap_output amount_in' reserve_in reserve_out amplification =
     abort_bind (u64_mul amount_in' 9970) (\<lambda>scaled_input.
     abort_bind (u64_div scaled_input 10000) (\<lambda>fee_adjusted_input.
     abort_bind (u64_mul fee_adjusted_input reserve_out) (\<lambda>numerator.
     abort_bind (u64_add reserve_in fee_adjusted_input) (\<lambda>denominator.
     u64_div numerator denominator))))"

subsection \<open>Pool creation and deposits\<close>

text \<open>
  \<open>coin::create_currency\<close> belongs to the coin framework. It asserts that its witness
  is a one-time witness and aborts with \<open>EBadWitness\<close> otherwise. A one-time witness
  is the type named after its module in capitals, without type parameters: of the two
  types the module passes, \<open>DEFI_PROTOCOL\<close> (in \<open>init\<close>) is one, and
  \<open>LPToken<T, U>\<close> (in \<open>create_liquidity_pool\<close>) is not.
\<close>

datatype currency_witness = DEFI_PROTOCOL | LPToken

fun is_one_time_witness :: "currency_witness \<Rightarrow> bool" where
  "is_one_time_witness DEFI_PROTOCOL = True"
| "is_one_time_witness LPToken = False"

definition create_currency :: "currency_witness \<Rightarrow> unit result" where
  "create_currency witness = assert_that (is_one_time_witness witness) EBadWitness"

text \<open>
  A coin enters as its value, a \<open>u64\<close>. The fields of the pool are evaluated in the
  order the struct literal lists them, so the square root and the price are computed
  before the product is cast to \<open>u64\<close>. The LP currency is created after the pool
  value. The result is the shared pool and the number of LP tokens minted to the
  caller.
\<close>

definition create_liquidity_pool ::
  "ProtocolState \<Rightarrow> nat \<Rightarrow> nat \<Rightarrow> bool \<Rightarrow> nat \<Rightarrow> address \<Rightarrow> (LiquidityPool \<times> nat) result" where
  "create_liquidity_pool protocol initial_a initial_b is_stable amplification sender =
     abort_bind (assert_that (\<not> is_paused protocol) ENotAuthorized) (\<lambda>_.
     abort_bind (assert_that (sender = admin protocol) ENotAuthorized) (\<lambda>_.
     let amount_a = initial_a; amount_b = initial_b in
     abort_bind (assert_that (amount_a > 0 \<and> amount_b > 0) EInsufficientLiquidity) (\<lambda>_.
     abort_bind (u128_mul amount_a amount_b) (\<lambda>k.
     abort_bind (sqrt_u128 k) (\<lambda>root.
     abort_bind (as_u64 root) (\<lambda>lp_supply.
     abort_bind (u64_mul amount_b 1000000) (\<lambda>scaled_b.
     abort_bind (u64_div scaled_b amount_a) (\<lambda>price.
     abort_bind (as_u64 k) (\<lambda>k64.
     let pool = \<lparr>token_a_reserve = amount_a,
                 token_b_reserve = amount_b,
                 lp_token_supply = lp_supply,
                 swap_fee_rate = trading_fee_rate protocol,
                 last_price = price,
                 price_cumulative_last = 0,
                 block_timestamp_last = 0,
                 k_constant = k64,
                 amplification_coefficient = amplification,
                 is_stable_pool = is_stable\<rparr> in
     abort_bind (create_currency LPToken) (\<lambda>_.
     Inr (pool, lp_token_supply pool)))))))))))"




subsection \<open>Swaps\<close>

text \<open>
  The profile of the trader, when there is one: the traded volume grows by the input
  and the tier follows the volume.
\<close>

definition record_trade :: "ProtocolState \<Rightarrow> address \<Rightarrow> nat \<Rightarrow> ProtocolState result" where
  "record_trade protocol sender amount_in' =
     (case profiles protocol sender of
        None \<Rightarrow> Inr protocol
      | Some profile \<Rightarrow>
          abort_bind (u64_add (total_volume_traded profile) amount_in') (\<lambda>volume.
          let profile = profile\<lparr>total_volume_traded := volume, last_activity := 0\<rparr>;
              profile =
                (if total_volume_traded profile > 100000000000
                 then profile\<lparr>tier_level := 3, fee_discount := 50\<rparr>
                 else if total_volume_traded profile > 10000000000
                 then profile\<lparr>tier_level := 2, fee_discount := 25\<rparr>
                 else profile)
          in Inr (protocol\<lparr>profiles := (profiles protocol)(sender \<mapsto> profile)\<rparr>)))"

text \<open>
  \<open>swap_exact_input\<close> takes token A and pays token B. It returns the pool, the
  protocol state, the coin sent to the trader and the event.
\<close>

definition swap_exact_input ::
  "LiquidityPool \<Rightarrow> ProtocolState \<Rightarrow> nat \<Rightarrow> nat \<Rightarrow> address
     \<Rightarrow> (LiquidityPool \<times> ProtocolState \<times> nat \<times> TokenSwapped) result" where
  "swap_exact_input pool protocol token_in min_amount_out sender =
     abort_bind (assert_that (\<not> is_paused protocol) ENotAuthorized) (\<lambda>_.
     abort_bind (assert_that (token_in > 0) EInsufficientBalance) (\<lambda>_.
     let reserve_in = token_a_reserve pool; reserve_out = token_b_reserve pool in
     abort_bind
       (if is_stable_pool pool
        then calculate_stable_swap_output token_in reserve_in reserve_out (amplification_coefficient pool)
        else calculate_constant_product_output token_in reserve_in reserve_out (swap_fee_rate pool))
       (\<lambda>out.
     abort_bind (assert_that (out > 0) EInsufficientLiquidity) (\<lambda>_.
     abort_bind (assert_that (out \<ge> min_amount_out) ESlippageTooHigh) (\<lambda>_.
     abort_bind (u64_mul reserve_out 1000000) (\<lambda>scaled_before.
     abort_bind (u64_div scaled_before reserve_in) (\<lambda>price_before.
     abort_bind (u64_sub reserve_out out) (\<lambda>left_out.
     abort_bind (u64_mul left_out 1000000) (\<lambda>scaled_after.
     abort_bind (u64_add reserve_in token_in) (\<lambda>grown_in.
     abort_bind (u64_div scaled_after grown_in) (\<lambda>price_after.
     abort_bind
       (if price_after < price_before
        then abort_bind (u64_sub price_before price_after) (\<lambda>drop.
             abort_bind (u64_mul drop 10000) (\<lambda>scaled_drop.
             u64_div scaled_drop price_before))
        else Inr 0)
       (\<lambda>impact.
     abort_bind (u64_mul token_in (swap_fee_rate pool)) (\<lambda>scaled_fee.
     abort_bind (u64_div scaled_fee 10000) (\<lambda>fee_paid.
     abort_bind (balance_join (token_a_reserve pool) token_in) (\<lambda>new_reserve_a.
     abort_bind (balance_split (token_b_reserve pool) out) (\<lambda>(new_reserve_b, token_out).
     abort_bind (record_trade protocol sender token_in) (\<lambda>protocol'.
     Inr (pool\<lparr>token_a_reserve := new_reserve_a,
               token_b_reserve := new_reserve_b,
               last_price := price_after\<rparr>,
          protocol', token_out,
          \<lparr>trader = sender,
           amount_in = token_in,
           amount_out = out,
           fee_amount = fee_paid,
           price_impact = impact\<rparr>))))))))))))))))))"

subsection \<open>Flash loans\<close>

text \<open>
  \<open>flash_loan\<close> returns the pool, the coin lent and the receipt; a receipt has no
  abilities, so only \<open>repay_flash_loan\<close> can consume it.
\<close>

definition flash_loan :: "LiquidityPool \<Rightarrow> nat \<Rightarrow> (LiquidityPool \<times> nat \<times> FlashLoan) result" where
  "flash_loan pool amount' =
     (let reserve = token_a_reserve pool in
      abort_bind (u64_div reserve 10) (\<lambda>tenth.
      abort_bind (assert_that (amount' \<le> tenth) EInsufficientLiquidity) (\<lambda>_.
      abort_bind (u64_mul amount' 9) (\<lambda>scaled.
      abort_bind (u64_div scaled 10000) (\<lambda>fee'.
      abort_bind (balance_split (token_a_reserve pool) amount') (\<lambda>(left, loan_coin).
      Inr (pool\<lparr>token_a_reserve := left\<rparr>, loan_coin, \<lparr>amount = amount', fee = fee'\<rparr>)))))))"

definition repay_flash_loan :: "LiquidityPool \<Rightarrow> nat \<Rightarrow> FlashLoan \<Rightarrow> LiquidityPool result" where
  "repay_flash_loan pool repayment receipt =
     abort_bind (u64_add (amount receipt) (fee receipt)) (\<lambda>total_repayment.
     abort_bind (assert_that (repayment \<ge> total_repayment) EInsufficientBalance) (\<lambda>_.
     abort_bind (balance_join (token_a_reserve pool) repayment) (\<lambda>reserve.
     Inr (pool\<lparr>token_a_reserve := reserve\<rparr>))))"

section \<open>The oracle aggregator (module oracle\_aggregator)\<close>

definition MIN_CONFIDENCE_THRESHOLD :: nat where
  "MIN_CONFIDENCE_THRESHOLD = 70"

definition MAX_PRICE_DEVIATION :: nat where
  "MAX_PRICE_DEVIATION = 1000"

definition MIN_DATA_SOURCES :: nat where
  "MIN_DATA_SOURCES = 3"

definition TWAP_WINDOW_SIZE :: nat where
  "TWAP_WINDOW_SIZE = 24"

definition CIRCUIT_BREAKER_THRESHOLD :: nat where
  "CIRCUIT_BREAKER_THRESHOLD = 2000"

text \<open>
  Several structs of the module share field names (\<open>pair\<close>, \<open>confidence\<close>,
  \<open>timestamp\<close>); the records keep the names, and a shared name is written with its
  record, as in \<open>PriceFeed.confidence\<close>. The field \<open>open\<close> of \<open>HourlyPrice\<close> is
  \<open>open_price\<close> here, \<open>open\<close> being a keyword.
\<close>

record PriceSubmission =
  price :: nat
  confidence :: nat
  timestamp :: nat
  source_id :: string
  signature_hash :: "nat list"

record PriceFeed =
  pair :: string
  current_price :: nat
  confidence :: nat
  last_update :: nat
  source_count :: nat
  twap_24h :: nat
  volume_weighted_price :: nat
  price_sources :: "(address \<times> PriceSubmission) list"
  is_active :: bool

record OracleNode =
  node_address :: address
  reputation_score :: nat
  total_submissions :: nat
  accurate_submissions :: nat
  stake_amount :: nat
  last_submission :: nat
  is_authorized :: bool
  reward_multiplier :: nat

record HourlyPrice =
  timestamp :: nat
  open_price :: nat
  high :: nat
  low :: nat
  close :: nat
  volume :: nat
  weighted_price :: nat

record DailySummary =
  date :: nat
  avg_price :: nat
  volatility :: nat
  trading_volume :: nat
  price_change_24h :: nat

record PriceHistory =
  hourly_prices :: "HourlyPrice list"
  daily_summary :: "DailySummary list"
  max_history_size :: nat
  last_cleanup :: nat

record CircuitBreaker =
  pair :: string
  is_triggered :: bool
  trigger_price :: nat
  trigger_timestamp :: nat
  reset_threshold :: nat
  consecutive_anomalies :: nat
  last_normal_price :: nat

record AggregationSettings =
  min_sources :: nat
  confidence_threshold :: nat
  deviation_threshold :: nat
  stale_threshold :: nat
  circuit_breaker_enabled :: bool
  twap_enabled :: bool
  volume_weighting_enabled :: bool

record OracleAggregator =
  admin :: address
  supported_pairs :: "string \<rightharpoonup> PriceFeed"
  oracle_nodes :: "address \<rightharpoonup> OracleNode"
  price_history :: "string \<rightharpoonup> PriceHistory"
  circuit_breakers :: "string \<rightharpoonup> CircuitBreaker"
  aggregation_settings :: AggregationSettings
  is_paused :: bool

text \<open>
  The events, with the fields in the order of the source:
  \<open>PriceUpdated pair new_price old_price confidence source_count deviation timestamp\<close>,
  \<open>CircuitBreakerTriggered pair trigger_price previous_price deviation timestamp\<close> and
  \<open>OracleNodeRegistered node_address stake_amount reputation_score timestamp\<close>.
\<close>

datatype oracle_event =
    PriceUpdated string nat nat nat nat nat nat
  | CircuitBreakerTriggered string nat nat nat nat
  | OracleNodeRegistered address nat nat nat

subsection \<open>The submission buffer\<close>

text \<open>
  A \<open>VecMap\<close> is a vector of entries in insertion order; \<open>vec_map::insert\<close> aborts on
  a key that is already present, and \<open>into_keys_values\<close> unzips the entries.
\<close>

definition vec_map_insert :: "('k \<times> 'v) list \<Rightarrow> 'k \<Rightarrow> 'v \<Rightarrow> ('k \<times> 'v) list result" where
  "vec_map_insert self k v =
     (if k \<in> set (map fst self) then Inl EKeyAlreadyExists else Inr (self @ [(k, v)]))"

definition into_keys_values :: "('k \<times> 'v) list \<Rightarrow> 'k list \<times> 'v list" where
  "into_keys_values self = (map fst self, map snd self)"

definition vector_borrow :: "'a list \<Rightarrow> nat \<Rightarrow> 'a result" where
  "vector_borrow v i = (if i < length v then Inr (v ! i) else Inl VectorIndexOutOfBounds)"

subsection \<open>Registration\<close>

definition oracle_init :: "address \<Rightarrow> OracleAggregator" where
  "oracle_init sender =
     \<lparr>OracleAggregator.admin = sender,
      supported_pairs = Map.empty,
      oracle_nodes = Map.empty,
      price_history = Map.empty,
      circuit_breakers = Map.empty,
      aggregation_settings =
        \<lparr>min_sources = MIN_DATA_SOURCES,
         confidence_threshold = MIN_CONFIDENCE_THRESHOLD,
         deviation_threshold = MAX_PRICE_DEVIATION,
         stale_threshold = 5 * 60 * 1000,
         circuit_breaker_enabled = True,
         twap_enabled = True,
         volume_weighting_enabled = True\<rparr>,
      OracleAggregator.is_paused = False\<rparr>"



text \<open>
  \<open>add_price_feed\<close>: \<open>table::add\<close> aborts on a key that is present. The pair arrives
  as bytes and becomes a string; the model takes the string.
\<close>

definition add_price_feed :: "OracleAggregator \<Rightarrow> string \<Rightarrow> address \<Rightarrow> OracleAggregator result" where
  "add_price_feed aggregator pair_string sender =
     abort_bind (assert_that (sender = OracleAggregator.admin aggregator) ENotAuthorized) (\<lambda>_.
     abort_bind (assert_that (supported_pairs aggregator pair_string = None) ENotAuthorized) (\<lambda>_.
     let price_feed =
           \<lparr>PriceFeed.pair = pair_string,
            current_price = 0,
            PriceFeed.confidence = 0,
            last_update = 0,
            source_count = 0,
            twap_24h = 0,
            volume_weighted_price = 0,
            price_sources = [],
            is_active = True\<rparr>;
         history =
           \<lparr>hourly_prices = [],
            daily_summary = [],
            max_history_size = TWAP_WINDOW_SIZE * 30,
            last_cleanup = 0\<rparr>;
         circuit_breaker =
           \<lparr>CircuitBreaker.pair = pair_string,
            is_triggered = False,
            trigger_price = 0,
            trigger_timestamp = 0,
            reset_threshold = MAX_PRICE_DEVIATION div 2,
            consecutive_anomalies = 0,
            last_normal_price = 0\<rparr>
     in
     abort_bind (assert_that (price_history aggregator pair_string = None) TableKeyExists) (\<lambda>_.
     abort_bind (assert_that (circuit_breakers aggregator pair_string = None) TableKeyExists) (\<lambda>_.
     Inr (aggregator\<lparr>supported_pairs := (supported_pairs aggregator)(pair_string \<mapsto> price_feed),
                     price_history := (price_history aggregator)(pair_string \<mapsto> history),
                     circuit_breakers := (circuit_breakers aggregator)(pair_string \<mapsto> circuit_breaker)\<rparr>)))))"

subsection \<open>Aggregation\<close>

definition calculate_price_deviation :: "nat \<Rightarrow> nat \<Rightarrow> nat result" where
  "calculate_price_deviation new_price old_price =
     (if old_price = 0 then Inr 0
      else let diff = (if new_price > old_price then new_price - old_price
                       else old_price - new_price)
           in abort_bind (u64_mul diff 10000) (\<lambda>scaled. u64_div scaled old_price))"

text \<open>
  The first loop of \<open>aggregate_prices\<close>: it walks the buffered submissions and keeps
  the prices and confidences of those that are not stale, with their total weight and
  their number.
\<close>

fun collect_valid ::
  "nat \<Rightarrow> nat \<Rightarrow> PriceSubmission list \<Rightarrow> nat list \<times> nat list \<times> nat \<times> nat
     \<Rightarrow> (nat list \<times> nat list \<times> nat \<times> nat) result" where
  "collect_valid current_time stale [] acc = Inr acc"
| "collect_valid current_time stale (submission # rest)
       (valid_prices, valid_confidences, total_weight, count) =
     abort_bind (u64_sub current_time (PriceSubmission.timestamp submission)) (\<lambda>age.
     if age \<le> stale then
       abort_bind (u64_add total_weight (PriceSubmission.confidence submission)) (\<lambda>weight.
       abort_bind (u64_add count 1) (\<lambda>count'.
       collect_valid current_time stale rest
         (valid_prices @ [price submission],
          valid_confidences @ [PriceSubmission.confidence submission], weight, count')))
     else collect_valid current_time stale rest
            (valid_prices, valid_confidences, total_weight, count))"

text \<open>The second loop: each product is divided by 100 before it is added.\<close>

fun weigh_prices :: "nat list \<Rightarrow> nat list \<Rightarrow> nat \<Rightarrow> nat result" where
  "weigh_prices [] valid_confidences weighted = Inr weighted"
| "weigh_prices (p # valid_prices) [] weighted = Inl VectorIndexOutOfBounds"
| "weigh_prices (p # valid_prices) (c # valid_confidences) weighted =
     abort_bind (u64_mul p c) (\<lambda>product.
     abort_bind (u64_div product 100) (\<lambda>share.
     abort_bind (u64_add weighted share) (\<lambda>weighted'.
     weigh_prices valid_prices valid_confidences weighted')))"

definition trigger_circuit_breaker ::
  "OracleAggregator \<Rightarrow> string \<Rightarrow> nat \<Rightarrow> nat \<Rightarrow> nat \<Rightarrow> (OracleAggregator \<times> oracle_event) result" where
  "trigger_circuit_breaker aggregator pair_string trigger previous time =
     (case circuit_breakers aggregator pair_string of
        None \<Rightarrow> Inl TableKeyMissing
      | Some circuit_breaker \<Rightarrow>
          abort_bind (u64_add (consecutive_anomalies circuit_breaker) 1) (\<lambda>anomalies.
          abort_bind (calculate_price_deviation trigger previous) (\<lambda>deviation.
          Inr (aggregator\<lparr>circuit_breakers := (circuit_breakers aggregator)(pair_string \<mapsto>
                 circuit_breaker\<lparr>is_triggered := True,
                                 trigger_price := trigger,
                                 trigger_timestamp := time,
                                 consecutive_anomalies := anomalies\<rparr>)\<rparr>,
               CircuitBreakerTriggered pair_string trigger previous deviation time))))"

text \<open>
  \<open>aggregate_prices\<close>. The buffer is read by value (a \<open>VecMap\<close> of copyable entries
  is copied), so the early return of the breaker leaves the feed as it was. On the
  publishing path the buffer is emptied and then entry 0 of the old buffer is inserted
  again. The call of \<open>update_twap\<close> is commented out in the source and is therefore
  absent here.
\<close>

definition aggregate_prices ::
  "OracleAggregator \<Rightarrow> string \<Rightarrow> nat \<Rightarrow> (OracleAggregator \<times> oracle_event) result" where
  "aggregate_prices aggregator pair_string current_time =
     (case supported_pairs aggregator pair_string of
        None \<Rightarrow> Inl TableKeyMissing
      | Some price_feed \<Rightarrow>
     let settings = aggregation_settings aggregator;
         (sources, submissions) = into_keys_values (price_sources price_feed) in
     abort_bind (collect_valid current_time (stale_threshold settings) submissions ([], [], 0, 0))
       (\<lambda>(valid_prices, valid_confidences, total_weight, count).
     abort_bind (assert_that (count \<ge> min_sources settings) EInsufficientDataSources) (\<lambda>_.
     abort_bind (weigh_prices valid_prices valid_confidences 0) (\<lambda>weighted_sum.
     abort_bind
       (if total_weight > 0
        then abort_bind (u64_mul weighted_sum 100) (\<lambda>scaled. u64_div scaled total_weight)
        else Inr weighted_sum)
       (\<lambda>weighted.
     abort_bind (u64_div total_weight count) (\<lambda>avg_confidence.
     let old_price = current_price price_feed in
     abort_bind (if old_price > 0 then calculate_price_deviation weighted old_price else Inr 0)
       (\<lambda>deviation.
     if old_price > 0 \<and> circuit_breaker_enabled settings \<and> deviation > CIRCUIT_BREAKER_THRESHOLD
     then trigger_circuit_breaker aggregator pair_string weighted old_price current_time
     else
       abort_bind (vector_borrow sources 0) (\<lambda>first_source.
       abort_bind (vector_borrow submissions 0) (\<lambda>first_submission.
       abort_bind (vec_map_insert [] first_source first_submission) (\<lambda>restored.
       Inr (aggregator\<lparr>supported_pairs := (supported_pairs aggregator)(pair_string \<mapsto>
              price_feed\<lparr>current_price := weighted,
                         PriceFeed.confidence := avg_confidence,
                         last_update := current_time,
                         source_count := count,
                         price_sources := restored\<rparr>)\<rparr>,
            PriceUpdated pair_string weighted old_price avg_confidence count deviation
              current_time)))))))))))"

text \<open>
  \<open>submit_price\<close> returns the aggregator and the event of the round, when the
  submission completed a round.
\<close>

definition submit_price ::
  "OracleAggregator \<Rightarrow> string \<Rightarrow> nat \<Rightarrow> nat \<Rightarrow> string \<Rightarrow> nat \<Rightarrow> address
     \<Rightarrow> (OracleAggregator \<times> oracle_event option) result" where
  "submit_price aggregator pair_string new_price conf source current_time submitter =
     abort_bind (assert_that (\<not> OracleAggregator.is_paused aggregator) ENotAuthorized) (\<lambda>_.
     abort_bind (assert_that (conf \<le> 100) EInvalidConfidence) (\<lambda>_.
     (case oracle_nodes aggregator submitter of
        None \<Rightarrow> Inl ENotAuthorized
      | Some node \<Rightarrow>
     abort_bind (assert_that (is_authorized node) ENotAuthorized) (\<lambda>_.
     (case supported_pairs aggregator pair_string of
        None \<Rightarrow> Inl ENotAuthorized
      | Some price_feed \<Rightarrow>
     (case circuit_breakers aggregator pair_string of
        None \<Rightarrow> Inl TableKeyMissing
      | Some circuit_breaker \<Rightarrow>
     abort_bind
       (if is_triggered circuit_breaker
        then abort_bind (calculate_price_deviation new_price (last_normal_price circuit_breaker))
               (\<lambda>deviation.
             assert_that (deviation \<le> reset_threshold circuit_breaker) ECircuitBreakerTriggered)
        else Inr ())
       (\<lambda>_.
     let submission =
           \<lparr>price = new_price,
            PriceSubmission.confidence = conf,
            PriceSubmission.timestamp = current_time,
            source_id = source,
            signature_hash = []\<rparr> in
     abort_bind (vec_map_insert (price_sources price_feed) submitter submission) (\<lambda>buffered.
     abort_bind (u64_add (total_submissions node) 1) (\<lambda>submitted.
     let price_feed = price_feed\<lparr>price_sources := buffered\<rparr>;
         aggregator = aggregator
           \<lparr>supported_pairs := (supported_pairs aggregator)(pair_string \<mapsto> price_feed),
            oracle_nodes := (oracle_nodes aggregator)(submitter \<mapsto>
              node\<lparr>total_submissions := submitted, last_submission := current_time\<rparr>)\<rparr>
     in
     if length (price_sources price_feed) \<ge> min_sources (aggregation_settings aggregator)
     then abort_bind (aggregate_prices aggregator pair_string current_time)
            (\<lambda>(aggregator', event). Inr (aggregator', Some event))
     else Inr (aggregator, None))))))))))"

subsection \<open>History and the time-weighted average\<close>

text \<open>The loop of \<open>calculate_twap\<close>, over the entries from \<open>start_index\<close> on.\<close>

fun twap_sum :: "HourlyPrice list \<Rightarrow> nat \<Rightarrow> nat \<Rightarrow> (nat \<times> nat) result" where
  "twap_sum [] acc count = Inr (acc, count)"
| "twap_sum (p # prices) acc count =
     abort_bind (u64_add acc (weighted_price p)) (\<lambda>acc'.
     abort_bind (u64_add count 1) (\<lambda>count'.
     twap_sum prices acc' count'))"

definition calculate_twap :: "PriceHistory \<Rightarrow> nat \<Rightarrow> nat result" where
  "calculate_twap history hours =
     (let prices = hourly_prices history; len = length prices in
      if len = 0 then Inr 0
      else let start_index = (if len > hours then len - hours else 0) in
           abort_bind (twap_sum (drop start_index prices) 0 0) (\<lambda>(acc, count).
           if count > 0 then u64_div acc count else Inr 0))"

text \<open>
  \<open>update_twap\<close> pushes the new entry, removes entry 0 when the vector has grown over
  \<open>max_history_size\<close>, and stores the average of the last 24 entries in the feed. No
  function of the module calls it.
\<close>

definition update_twap :: "OracleAggregator \<Rightarrow> string \<Rightarrow> nat \<Rightarrow> nat \<Rightarrow> OracleAggregator result" where
  "update_twap aggregator pair_string new_price time =
     (case price_history aggregator pair_string of
        None \<Rightarrow> Inl TableKeyMissing
      | Some history \<Rightarrow>
     let hourly_price =
           \<lparr>HourlyPrice.timestamp = time,
            open_price = new_price,
            high = new_price,
            low = new_price,
            close = new_price,
            volume = 0,
            weighted_price = new_price\<rparr>;
         pushed = hourly_prices history @ [hourly_price];
         kept = (if length pushed > max_history_size history then tl pushed else pushed);
         history = history\<lparr>hourly_prices := kept\<rparr>
     in
     (case supported_pairs aggregator pair_string of
        None \<Rightarrow> Inl TableKeyMissing
      | Some price_feed \<Rightarrow>
     abort_bind (calculate_twap history 24) (\<lambda>twap.
     Inr (aggregator\<lparr>price_history := (price_history aggregator)(pair_string \<mapsto> history),
                     supported_pairs := (supported_pairs aggregator)(pair_string \<mapsto>
                       price_feed\<lparr>twap_24h := twap\<rparr>)\<rparr>))))"

subsection \<open>Administration\<close>




subsection \<open>The states the entry points reach\<close>


section \<open>Example states\<close>

text \<open>The pool of the swap scenario: one million of each token, a fee of 30 basis points.\<close>

definition example_pool :: LiquidityPool where
  "example_pool =
     \<lparr>token_a_reserve = 1000000, token_b_reserve = 1000000, lp_token_supply = 1000000,
      swap_fee_rate = 30, last_price = 1000000, price_cumulative_last = 0,
      block_timestamp_last = 0, k_constant = 1000000000000, amplification_coefficient = 0,
      is_stable_pool = False\<rparr>"

definition example_protocol :: ProtocolState where
  "example_protocol =
     \<lparr>ProtocolState.admin = 1, total_value_locked = 0, trading_fee_rate = 30,
      governance_threshold = 100000000000, ProtocolState.is_paused = False, profiles = Map.empty\<rparr>"

text \<open>
  An aggregator with the settings of \<open>init\<close>, administrator 1, the authorized
  reporters 11, 12 and 13 and the pair \<open>IOTA/USD\<close> as \<open>add_price_feed\<close> creates it.
\<close>

definition example_node :: "address \<Rightarrow> OracleNode" where
  "example_node a =
     \<lparr>node_address = a, reputation_score = 100, total_submissions = 0,
      accurate_submissions = 0, stake_amount = 1000, last_submission = 0,
      is_authorized = True, reward_multiplier = 100\<rparr>"

definition example_feed :: PriceFeed where
  "example_feed =
     \<lparr>PriceFeed.pair = ''IOTA/USD'', current_price = 0, PriceFeed.confidence = 0,
      last_update = 0, source_count = 0, twap_24h = 0, volume_weighted_price = 0,
      price_sources = [], is_active = True\<rparr>"

definition example_history :: PriceHistory where
  "example_history =
     \<lparr>hourly_prices = [], daily_summary = [], max_history_size = 720, last_cleanup = 0\<rparr>"

definition example_breaker :: CircuitBreaker where
  "example_breaker =
     \<lparr>CircuitBreaker.pair = ''IOTA/USD'', is_triggered = False, trigger_price = 0,
      trigger_timestamp = 0, reset_threshold = 500, consecutive_anomalies = 0,
      last_normal_price = 0\<rparr>"

definition example_aggregator :: OracleAggregator where
  "example_aggregator =
     (oracle_init 1)
       \<lparr>supported_pairs := [''IOTA/USD'' \<mapsto> example_feed],
        oracle_nodes := [11 \<mapsto> example_node 11, 12 \<mapsto> example_node 12, 13 \<mapsto> example_node 13],
        price_history := [''IOTA/USD'' \<mapsto> example_history],
        circuit_breakers := [''IOTA/USD'' \<mapsto> example_breaker]\<rparr>"

text \<open>
  The same aggregator after reporters 11 and 12 have submitted 99 and 100, each with
  confidence 50 at time 1000: one submission short of the quorum.
\<close>

definition after_first :: OracleAggregator where
  "after_first = fst (projr (submit_price example_aggregator ''IOTA/USD'' 99 50 ''feed-a'' 1000 11))"

definition after_second :: OracleAggregator where
  "after_second = fst (projr (submit_price after_first ''IOTA/USD'' 100 50 ''feed-b'' 1000 12))"

text \<open>The state after reporter 13 has submitted 101 and the round has run.\<close>

definition after_round :: OracleAggregator where
  "after_round = fst (projr (submit_price after_second ''IOTA/USD'' 101 50 ''feed-c'' 1000 13))"

text \<open>
  The aggregator as \<open>aggregate_prices\<close> meets it at a quorum: three submissions of
  time 1000 in the buffer, with the prices 99, 100 and 101 and confidence 50 each.
\<close>

definition example_submission :: "nat \<Rightarrow> PriceSubmission" where
  "example_submission p =
     \<lparr>price = p, PriceSubmission.confidence = 50, PriceSubmission.timestamp = 1000,
      source_id = ''feed'', signature_hash = []\<rparr>"

definition quorum_aggregator :: OracleAggregator where
  "quorum_aggregator =
     example_aggregator
       \<lparr>supported_pairs := [''IOTA/USD'' \<mapsto> example_feed
          \<lparr>price_sources := [(11, example_submission 99), (12, example_submission 100),
                              (13, example_submission 101)]\<rparr>]\<rparr>"

text \<open>A history of capacity 2 that is full, to show the eviction of \<open>update_twap\<close>.\<close>

definition example_bucket :: "nat \<Rightarrow> nat \<Rightarrow> HourlyPrice" where
  "example_bucket time p =
     \<lparr>HourlyPrice.timestamp = time, open_price = p, high = p, low = p, close = p,
      volume = 0, weighted_price = p\<rparr>"

definition full_history_aggregator :: OracleAggregator where
  "full_history_aggregator =
     example_aggregator
       \<lparr>price_history := [''IOTA/USD'' \<mapsto>
          \<lparr>hourly_prices = [example_bucket 100 10, example_bucket 200 20],
           daily_summary = [], max_history_size = 2, last_cleanup = 0\<rparr>]\<rparr>"






text \<open>
  The price as the specification words it: one truncation after the whole sum of the
  products, one after the rescaling.
\<close>

definition specified_weighted_price :: "PriceSubmission list \<Rightarrow> nat" where
  "specified_weighted_price fresh =
     (sum_list (map (\<lambda>s. price s * PriceSubmission.confidence s) fresh) div 100) * 100
       div sum_list (map PriceSubmission.confidence fresh)"

text \<open>The submissions of a round that are not stale at the time of the round.\<close>

definition fresh_submissions :: "nat \<Rightarrow> nat \<Rightarrow> PriceSubmission list \<Rightarrow> PriceSubmission list" where
  "fresh_submissions current_time stale submissions =
     filter (\<lambda>s. current_time - PriceSubmission.timestamp s \<le> stale) submissions"

section \<open>Results of the abort monad\<close>

lemma abort_bind_Inr_iff: "abort_bind m f = Inr y \<longleftrightarrow> (\<exists>x. m = Inr x \<and> f x = Inr y)"
  by (cases m) (simp_all add: abort_bind_def)

lemma abort_bind_Inr [simp]: "abort_bind (Inr x) f = f x"
  by (simp add: abort_bind_def)

lemma abort_bind_Inl [simp]: "abort_bind (Inl e) f = Inl e"
  by (simp add: abort_bind_def)

lemma assert_that_Inr_iff: "assert_that c e = Inr u \<longleftrightarrow> c"
  by (simp add: assert_that_def)

lemma u64_add_Inr_iff: "u64_add a b = Inr c \<longleftrightarrow> a + b < U64_LIMIT \<and> c = a + b"
  by (auto simp: u64_add_def)

lemma u64_sub_Inr_iff: "u64_sub a b = Inr c \<longleftrightarrow> b \<le> a \<and> c = a - b"
  by (auto simp: u64_sub_def)

lemma u64_mul_Inr_iff: "u64_mul a b = Inr c \<longleftrightarrow> a * b < U64_LIMIT \<and> c = a * b"
  by (auto simp: u64_mul_def)

lemma u64_div_Inr_iff: "u64_div a b = Inr c \<longleftrightarrow> b \<noteq> 0 \<and> c = a div b"
  by (auto simp: u64_div_def)

lemma as_u64_Inr_iff: "as_u64 a = Inr c \<longleftrightarrow> a < U64_LIMIT \<and> c = a"
  by (auto simp: as_u64_def)

lemma u128_mul_Inr_iff: "u128_mul a b = Inr c \<longleftrightarrow> a * b < U128_LIMIT \<and> c = a * b"
  by (auto simp: u128_mul_def)

lemma balance_join_Inr_iff: "balance_join a b = Inr c \<longleftrightarrow> a + b < U64_LIMIT \<and> c = a + b"
  by (simp add: balance_join_def u64_add_Inr_iff)

lemma balance_split_Inr_iff: "balance_split a b = Inr c \<longleftrightarrow> b \<le> a \<and> c = (a - b, b)"
  by (auto simp: balance_split_def)

lemma abort_bind_always_Inl:
  assumes "\<And>x. \<exists>e. f x = Inl e"
  shows "\<exists>e. abort_bind m f = Inl e"
  using assms by (cases m) simp_all

lemmas result_iffs = abort_bind_Inr_iff assert_that_Inr_iff u64_add_Inr_iff u64_sub_Inr_iff
  u64_mul_Inr_iff u64_div_Inr_iff as_u64_Inr_iff u128_mul_Inr_iff balance_join_Inr_iff
  balance_split_Inr_iff

lemma constant_product_output_Inr:
  assumes "calculate_constant_product_output a rin rout f = Inr out"
  shows "f \<le> 10000 \<and> rin * 10000 + a * (10000 - f) \<noteq> 0
       \<and> out = (a * (10000 - f) * rout) div (rin * 10000 + a * (10000 - f))"
  using assms unfolding calculate_constant_product_output_def
  by (auto simp: result_iffs)

text \<open>The arithmetic of the constant-product rule.\<close>

lemma constant_product_grows:
  fixes a rin rout f :: nat
  assumes f: "f \<le> 10000" and d: "rin * 10000 + a * (10000 - f) \<noteq> 0"
  defines "out \<equiv> (a * (10000 - f) * rout) div (rin * 10000 + a * (10000 - f))"
  shows "out \<le> rout" and "rin * rout \<le> (rin + a) * (rout - out)"
    and "0 < f \<Longrightarrow> 0 < a \<Longrightarrow> 0 < rin \<Longrightarrow> 0 < rout \<Longrightarrow> rin * rout < (rin + a) * (rout - out)"
proof -
  define w where "w = a * (10000 - f)"
  define D where "D = rin * 10000 + w"
  have Dpos: "0 < D" using d by (auto simp: D_def w_def)
  have out: "out = (w * rout) div D" by (simp add: out_def w_def D_def)
  have le: "out * D \<le> w * rout" unfolding out by (simp add: div_times_less_eq_dividend)
  have wD: "w \<le> D" by (simp add: D_def)
  note le
  also have "w * rout \<le> D * rout" using wD by (rule mult_le_mono1)
  also have "D * rout = rout * D" by (rule mult.commute)
  finally have "out * D \<le> rout * D" .
  then show outle: "out \<le> rout" using Dpos by simp
  have w10: "w \<le> a * 10000" by (simp add: w_def)
  have key: "(rout - out) * D \<ge> rout * rin * 10000"
  proof -
    have "(rout - out) * D = rout * D - out * D" by (simp add: diff_mult_distrib)
    also have "\<dots> \<ge> rout * D - w * rout" using le by simp
    finally have "(rout - out) * D \<ge> rout * D - w * rout" .
    moreover have "rout * D - w * rout = rout * rin * 10000"
      by (simp add: D_def algebra_simps)
    ultimately show ?thesis by simp
  qed
  have D10: "D \<le> (rin + a) * 10000" using w10 by (simp add: D_def algebra_simps)
  have "rin * rout * D \<le> rin * rout * ((rin + a) * 10000)" using D10 by simp
  also have "\<dots> = (rin + a) * (rout * rin * 10000)" by (simp add: algebra_simps)
  also have "\<dots> \<le> (rin + a) * ((rout - out) * D)" using key by simp
  finally have "rin * rout * D \<le> (rin + a) * (rout - out) * D" by (simp add: mult.assoc)
  then show "rin * rout \<le> (rin + a) * (rout - out)" using Dpos by simp
  assume pos: "0 < f" "0 < a" "0 < rin" "0 < rout"
  have "w < a * 10000" using pos f by (simp add: w_def)
  then have D10': "D < (rin + a) * 10000" by (simp add: D_def algebra_simps)
  have "rin * rout * D < rin * rout * ((rin + a) * 10000)" using D10' pos by simp
  also have "\<dots> = (rin + a) * (rout * rin * 10000)" by (simp add: algebra_simps)
  also have "\<dots> \<le> (rin + a) * ((rout - out) * D)" using key by simp
  finally have "rin * rout * D < (rin + a) * (rout - out) * D" by (simp add: mult.assoc)
  then show "rin * rout < (rin + a) * (rout - out)" using Dpos by simp
qed

section \<open>Swaps and the reserve product\<close>

lemma swap_exact_input_Inr:
  assumes "swap_exact_input pool protocol token_in min_amount_out sender = Inr (pool', protocol', token_out, ev)"
    and "\<not> is_stable_pool pool"
  shows "\<exists>out. calculate_constant_product_output token_in (token_a_reserve pool)
            (token_b_reserve pool) (swap_fee_rate pool) = Inr out
          \<and> 0 < out \<and> 0 < token_in \<and> 0 < token_a_reserve pool \<and> out \<le> token_b_reserve pool
          \<and> token_a_reserve pool' = token_a_reserve pool + token_in
          \<and> token_b_reserve pool' = token_b_reserve pool - out"
  using assms unfolding swap_exact_input_def Let_def
  by (auto simp: result_iffs split: if_splits)

text \<open>
  Claim C1. Every successful \<open>swap_exact_input\<close> on a pool that is not stable leaves
  the product of the two reserves at least as large as it was, and strictly larger when
  the fee rate of the pool is positive. A successful call has a positive input and
  positive reserves: a zero input fails the first check, a zero input reserve makes the
  price division abort and a zero output reserve gives a zero output.
\<close>

theorem swap_exact_input_product:
  assumes "swap_exact_input pool protocol token_in min_amount_out sender = Inr (pool', protocol', token_out, ev)"
    and "\<not> is_stable_pool pool"
  shows "token_a_reserve pool * token_b_reserve pool \<le> token_a_reserve pool' * token_b_reserve pool'
       \<and> (0 < swap_fee_rate pool \<longrightarrow>
            token_a_reserve pool * token_b_reserve pool < token_a_reserve pool' * token_b_reserve pool')"
proof -
  from swap_exact_input_Inr [OF assms] obtain out where
    out: "calculate_constant_product_output token_in (token_a_reserve pool)
            (token_b_reserve pool) (swap_fee_rate pool) = Inr out"
    and pos: "0 < out" "0 < token_in" "0 < token_a_reserve pool" "out \<le> token_b_reserve pool"
    and a': "token_a_reserve pool' = token_a_reserve pool + token_in"
    and b': "token_b_reserve pool' = token_b_reserve pool - out"
    by blast
  from constant_product_output_Inr [OF out] have
    f: "swap_fee_rate pool \<le> 10000"
    and d: "token_a_reserve pool * 10000 + token_in * (10000 - swap_fee_rate pool) \<noteq> 0"
    and o: "out = (token_in * (10000 - swap_fee_rate pool) * token_b_reserve pool) div
              (token_a_reserve pool * 10000 + token_in * (10000 - swap_fee_rate pool))"
    by simp_all
  have rout: "0 < token_b_reserve pool" using pos by simp
  show ?thesis
    using constant_product_grows(2) [OF f d] constant_product_grows(3) [OF f d _ pos(2) pos(3) rout]
    unfolding a' b' o by simp
qed

theorem swap_exact_input_product_witness:
  "\<not> is_stable_pool example_pool
   \<and> (\<exists>pool' ev. swap_exact_input example_pool example_protocol 10000 0 7
              = Inr (pool', example_protocol, 9871, ev)
          \<and> token_a_reserve pool' = 1010000 \<and> token_b_reserve pool' = 990129)
   \<and> (1000000::nat) * 1000000 < 1010000 * 990129"
proof -
  have run: "swap_exact_input example_pool example_protocol 10000 0 7 =
      Inr (example_pool\<lparr>token_a_reserve := 1010000, token_b_reserve := 990129, last_price := 980325\<rparr>,
           example_protocol, 9871,
           \<lparr>trader = 7, amount_in = 10000, amount_out = 9871, fee_amount = 30, price_impact = 196\<rparr>)"
    by (simp add: swap_exact_input_def calculate_constant_product_output_def record_trade_def
        example_pool_def example_protocol_def u64_sub_def u64_mul_def u64_add_def u64_div_def
        assert_that_def balance_join_def balance_split_def U64_LIMIT_def)
  have ns: "\<not> is_stable_pool example_pool" by (simp add: example_pool_def)
  from swap_exact_input_product [OF run ns] show ?thesis
    using run ns by (simp add: example_pool_def)
qed

section \<open>The integer square root and pool creation\<close>

lemma newton_step_upper:
  fixes g r x :: nat
  assumes g: "0 < g" and r: "r * r \<le> x"
  shows "r \<le> (g + x div g) div 2"
proof -
  have sq: "(2 * int r - int g) * int g \<le> int r * int r"
  proof -
    have "0 \<le> (int r - int g) * (int r - int g)" by simp
    then show ?thesis by (simp add: algebra_simps)
  qed
  have "(2 * r - g) * g \<le> r * r"
  proof (cases "g \<le> 2 * r")
    case True
    then have "int (2 * r - g) = 2 * int r - int g"
      by (simp add: of_nat_diff)
    then have "int ((2 * r - g) * g) = (2 * int r - int g) * int g"
      by (simp only: of_nat_mult)
    with sq have "int ((2 * r - g) * g) \<le> int (r * r)" by (simp only: of_nat_mult)
    then show ?thesis by (simp only: of_nat_le_iff)
  next
    case False
    then show ?thesis by simp
  qed
  with r have "(2 * r - g) * g \<le> x" by simp
  then have "2 * r - g \<le> x div g" using g by (simp add: less_eq_div_iff_mult_less_eq)
  then show ?thesis by linarith
qed

lemma sqrt_loop_floor:
  assumes "\<forall>r. r * r \<le> x \<longrightarrow> r \<le> g" and "g < 2 ^ 64" and "x < 2 ^ 65" and "0 < x"
  shows "\<exists>r. sqrt_loop x g = Inr r \<and> r * r \<le> x \<and> x < (r + 1) * (r + 1)"
  using assms
proof (induction x g rule: sqrt_loop.induct)
  case (1 x guess)
  have gpos: "0 < guess"
  proof -
    have "(1::nat) * 1 \<le> x" using \<open>0 < x\<close> by simp
    with "1.prems"(1) have "1 \<le> guess" by blast
    then show ?thesis by simp
  qed
  have "guess * guess < 2 ^ 64 * 2 ^ 64"
    using \<open>guess < 2 ^ 64\<close> by (intro mult_strict_mono) simp_all
  then have fits: "guess * guess < U128_LIMIT" by (simp add: U128_LIMIT_def)
  show ?case
  proof (cases "x < guess * guess")
    case True
    have "x div guess \<le> x" by simp
    then have "guess + x div guess < 2 ^ 64 + 2 ^ 65" using "1.prems"(2,3) by linarith
    then have sum_fits: "guess + x div guess < U128_LIMIT" by (simp add: U128_LIMIT_def)
    let ?next = "(guess + x div guess) div 2"
    have "x div guess < guess" using True gpos by (simp add: div_less_iff_less_mult)
    then have "?next < guess" by linarith
    then have small: "?next < 2 ^ 64" using "1.prems"(2) by linarith
    have upper: "\<forall>r. r * r \<le> x \<longrightarrow> r \<le> ?next"
      using newton_step_upper [OF gpos] by blast
    have "\<exists>r. sqrt_loop x ?next = Inr r \<and> r * r \<le> x \<and> x < (r + 1) * (r + 1)"
      using "1.IH" fits True sum_fits upper small "1.prems"(3,4) by simp
    moreover have "sqrt_loop x guess = sqrt_loop x ?next"
      using fits True sum_fits by (subst sqrt_loop.simps) simp
    ultimately show ?thesis by simp
  next
    case False
    then have res: "sqrt_loop x guess = Inr guess"
      using fits by (subst sqrt_loop.simps) simp
    have "x < (guess + 1) * (guess + 1)"
    proof (rule ccontr)
      assume "\<not> x < (guess + 1) * (guess + 1)"
      then have "(guess + 1) * (guess + 1) \<le> x" by simp
      with "1.prems"(1) have "guess + 1 \<le> guess" by blast
      then show False by simp
    qed
    with False res show ?thesis by simp
  qed
qed

lemma sqrt_u128_floor:
  assumes "x < 2 ^ 65"
  shows "\<exists>r. sqrt_u128 x = Inr r \<and> r * r \<le> x \<and> x < (r + 1) * (r + 1)"
proof (cases "x = 0")
  case True
  then show ?thesis by (simp add: sqrt_u128_def)
next
  case False
  let ?g = "if x div 2 = 0 then 1 else x div 2"
  have upper: "\<forall>r. r * r \<le> x \<longrightarrow> r \<le> ?g"
  proof (intro allI impI)
    fix r assume r: "r * r \<le> x"
    show "r \<le> ?g"
    proof (cases "r \<le> 1")
      case True
      then show ?thesis by auto
    next
      case False
      then have "2 \<le> r" by simp
      then have "2 * r \<le> r * r" by (rule mult_le_mono1)
      from this r have "2 * r \<le> x" by (rule le_trans)
      then have "r \<le> x div 2" by simp
      moreover from this False have "x div 2 \<noteq> 0" by simp
      ultimately show ?thesis by simp
    qed
  qed
  have small: "?g < 2 ^ 64" using assms by auto
  from sqrt_loop_floor [OF upper small assms] False
  show ?thesis by (simp add: sqrt_u128_def Let_def)
qed

lemma sqrt_u128_overflow:
  assumes "2 ^ 65 \<le> x"
  shows "sqrt_u128 x = Inl ArithmeticError"
proof -
  have "(2::nat) ^ 65 = 2 * 2 ^ 64" by simp
  with assms have "2 * 2 ^ 64 \<le> x" by (simp only:)
  then have g: "2 ^ 64 \<le> x div 2" by linarith
  from g g have "(2::nat) ^ 64 * 2 ^ 64 \<le> (x div 2) * (x div 2)" by (rule mult_le_mono)
  then have "\<not> (x div 2) * (x div 2) < U128_LIMIT" by (simp add: U128_LIMIT_def)
  then have "sqrt_loop x (x div 2) = Inl ArithmeticError" by (subst sqrt_loop.simps) simp
  moreover have "x \<noteq> 0" "x div 2 \<noteq> 0" using assms g by auto
  ultimately show ?thesis by (simp add: sqrt_u128_def Let_def)
qed


lemma sqrt_u128_example: "sqrt_u128 1000000000000 = Inr 1000000"
  by (simp add: sqrt_u128_def sqrt_loop.simps U128_LIMIT_def)

lemma create_liquidity_pool_zero:
  assumes "initial_a = 0 \<or> initial_b = 0"
  shows "create_liquidity_pool protocol initial_a initial_b is_stable amplification sender =
         Inl (if ProtocolState.is_paused protocol \<or> sender \<noteq> ProtocolState.admin protocol
              then ENotAuthorized else EInsufficientLiquidity)"
  using assms unfolding create_liquidity_pool_def Let_def
  by (auto simp: assert_that_def)


text \<open>
  With the checks passed and positive deposits whose product has reached \<open>2^64\<close>, the
  abort is an arithmetic one: in \<open>sqrt_u128\<close> from \<open>2^65\<close> on, at the cast of the
  product or earlier below that.
\<close>

lemma sqrt_loop_abort_code:
  "sqrt_loop x guess = Inl e \<Longrightarrow> e = ArithmeticError"
proof (induction x guess rule: sqrt_loop.induct)
  case (1 x guess)
  from "1.prems" show ?case
    by (subst (asm) sqrt_loop.simps) (auto split: if_splits intro: "1.IH")
qed

lemma sqrt_u128_abort_code:
  "sqrt_u128 x = Inl e \<Longrightarrow> e = ArithmeticError"
  by (auto simp: sqrt_u128_def Let_def split: if_splits dest: sqrt_loop_abort_code)

lemma create_liquidity_pool_large:
  assumes checks: "\<not> ProtocolState.is_paused protocol" "sender = ProtocolState.admin protocol"
    and pos: "0 < initial_a" "0 < initial_b"
    and large: "2 ^ 64 \<le> initial_a * initial_b"
  shows "create_liquidity_pool protocol initial_a initial_b is_stable amplification sender
           = Inl ArithmeticError"
proof -
  have cast: "as_u64 (initial_a * initial_b) = Inl ArithmeticError"
    using large by (simp add: as_u64_def U64_LIMIT_def)
  have root: "sqrt_u128 (initial_a * initial_b) = Inl ArithmeticError
              \<or> (\<exists>r. sqrt_u128 (initial_a * initial_b) = Inr r)"
    by (cases "sqrt_u128 (initial_a * initial_b)") (auto dest: sqrt_u128_abort_code)
  show ?thesis
    unfolding create_liquidity_pool_def Let_def
    using checks pos cast root
    by (auto simp: assert_that_def u128_mul_def as_u64_def u64_mul_def u64_div_def)
qed

text \<open>
  Claim C8 fails on the code. The test \<open>test_protocol_initialization\<close> of the
  repository lets the administrator create a pool from \<open>100_000_000_000\<close> of each
  token and asserts that the pool exists. The product of the deposits is \<open>10^22\<close>;
  the first guess of \<open>sqrt_u128\<close> is half of it, its square does not fit a \<open>u128\<close>,
  and the call aborts instead of setting the LP supply to \<open>10^11\<close>. Deposits of
  \<open>1_000_000\<close> each pass the arithmetic (the root is \<open>sqrt_u128_example\<close>) and
  abort in \<open>create_currency\<close>. Below \<open>2^65\<close> the root itself is right
  (\<open>sqrt_u128_floor\<close>), and a zero deposit fails as claimed
  (\<open>create_liquidity_pool_zero\<close>).
\<close>

theorem create_liquidity_pool_test_deposit_aborts:
  "sqrt_u128 (100000000000 * 100000000000) = Inl ArithmeticError
   \<and> create_liquidity_pool example_protocol 100000000000 100000000000 False 100 1
       = Inl ArithmeticError
   \<and> create_liquidity_pool example_protocol 1000000 1000000 False 100 1 = Inl EBadWitness"
proof -
  have "(2::nat) ^ 65 \<le> 100000000000 * 100000000000" by simp
  then have root: "sqrt_u128 (100000000000 * 100000000000) = Inl ArithmeticError"
    by (rule sqrt_u128_overflow)
  have "(2::nat) ^ 64 \<le> 100000000000 * 100000000000" by simp
  then have test: "create_liquidity_pool example_protocol 100000000000 100000000000 False 100 1
       = Inl ArithmeticError"
    by (intro create_liquidity_pool_large) (simp_all add: example_protocol_def)
  have small: "create_liquidity_pool example_protocol 1000000 1000000 False 100 1 = Inl EBadWitness"
    by (simp add: create_liquidity_pool_def example_protocol_def assert_that_def u128_mul_def
        U128_LIMIT_def U64_LIMIT_def sqrt_u128_example as_u64_def u64_mul_def u64_div_def
        create_currency_def)
  from root test small show ?thesis by (intro conjI)
qed

section \<open>The ceiling of the reserve product\<close>





section \<open>Flash loans\<close>

lemma flash_loan_Inr:
  assumes "flash_loan pool amount' = Inr (pool', loan_coin, receipt)"
  shows "amount' \<le> token_a_reserve pool div 10 \<and> amount' * 9 < U64_LIMIT
       \<and> loan_coin = amount' \<and> pool' = pool\<lparr>token_a_reserve := token_a_reserve pool - amount'\<rparr>
       \<and> receipt = \<lparr>amount = amount', fee = amount' * 9 div 10000\<rparr>"
  using assms unfolding flash_loan_def Let_def
  by (auto simp: result_iffs)

lemma flash_loan_too_large:
  assumes "token_a_reserve pool div 10 < amount'"
  shows "flash_loan pool amount' = Inl EInsufficientLiquidity"
  using assms by (simp add: flash_loan_def u64_div_def assert_that_def)

lemma repay_flash_loan_cases:
  assumes "amount receipt + fee receipt < U64_LIMIT"
  shows "repay_flash_loan pool repayment receipt =
     (if repayment < amount receipt + fee receipt then Inl EInsufficientBalance
      else if token_a_reserve pool + repayment < U64_LIMIT
      then Inr (pool\<lparr>token_a_reserve := token_a_reserve pool + repayment\<rparr>)
      else Inl ArithmeticError)"
  using assms
  by (simp add: repay_flash_loan_def u64_add_def assert_that_def balance_join_def)

text \<open>
  Claim C7. \<open>flash_loan\<close> fails with \<open>EInsufficientLiquidity\<close> whenever the amount
  exceeds a tenth of the reserve. For the receipt of a successful loan,
  \<open>repay_flash_loan\<close> fails with \<open>EInsufficientBalance\<close> exactly when the repayment is
  below the principal plus \<open>amount * 9 / 10000\<close>. A repayment that covers it is
  joined to the reserve; that addition is a \<open>u64\<close> addition, and while reserve and
  repayment together stay below \<open>2^64\<close> (the coin framework keeps the total supply of
  a currency in a \<open>u64\<close>) the call fails in no other case.
\<close>

theorem flash_loan_repayment:
  "(token_a_reserve pool div 10 < amount' \<longrightarrow> flash_loan pool amount' = Inl EInsufficientLiquidity)
   \<and> (flash_loan pool amount' = Inr (pool', loan_coin, receipt) \<longrightarrow>
        loan_coin = amount'
        \<and> token_a_reserve pool' = token_a_reserve pool - amount'
        \<and> (repay_flash_loan pool' repayment receipt = Inl EInsufficientBalance
             \<longleftrightarrow> repayment < amount' + amount' * 9 div 10000)
        \<and> (token_a_reserve pool' + repayment < 2 ^ 64 \<longrightarrow>
             ((\<exists>e. repay_flash_loan pool' repayment receipt = Inl e)
                \<longleftrightarrow> repayment < amount' + amount' * 9 div 10000)
             \<and> (amount' + amount' * 9 div 10000 \<le> repayment \<longrightarrow>
                  repay_flash_loan pool' repayment receipt =
                    Inr (pool'\<lparr>token_a_reserve := token_a_reserve pool' + repayment\<rparr>))))"
proof (intro conjI impI)
  assume "token_a_reserve pool div 10 < amount'"
  then show "flash_loan pool amount' = Inl EInsufficientLiquidity" by (rule flash_loan_too_large)
next
  assume ok: "flash_loan pool amount' = Inr (pool', loan_coin, receipt)"
  note facts = flash_loan_Inr [OF ok]
  have "amount' + amount' * 9 div 10000 \<le> amount' * 9" by (cases "amount' = 0") simp_all
  with facts have fits: "amount receipt + fee receipt < U64_LIMIT" by simp
  have total: "amount receipt + fee receipt = amount' + amount' * 9 div 10000"
    using facts by simp
  note cases = repay_flash_loan_cases [OF fits, of pool' repayment, unfolded total]
  show "loan_coin = amount'" using facts by simp
  show "token_a_reserve pool' = token_a_reserve pool - amount'" using facts by simp
  show "repay_flash_loan pool' repayment receipt = Inl EInsufficientBalance
          \<longleftrightarrow> repayment < amount' + amount' * 9 div 10000"
    unfolding cases by simp
  {
    assume "token_a_reserve pool' + repayment < 2 ^ 64"
    then have room: "token_a_reserve pool' + repayment < U64_LIMIT" by (simp add: U64_LIMIT_def)
    show "(\<exists>e. repay_flash_loan pool' repayment receipt = Inl e)
            \<longleftrightarrow> repayment < amount' + amount' * 9 div 10000"
      unfolding cases using room by simp
    assume "amount' + amount' * 9 div 10000 \<le> repayment"
    then show "repay_flash_loan pool' repayment receipt =
                 Inr (pool'\<lparr>token_a_reserve := token_a_reserve pool' + repayment\<rparr>)"
      unfolding cases using room by simp
  }
qed

theorem flash_loan_repayment_witness:
  "flash_loan example_pool 100001 = Inl EInsufficientLiquidity
   \<and> flash_loan example_pool 100000 =
       Inr (example_pool\<lparr>token_a_reserve := 900000\<rparr>, 100000, \<lparr>amount = 100000, fee = 90\<rparr>)
   \<and> repay_flash_loan (example_pool\<lparr>token_a_reserve := 900000\<rparr>) 100089 \<lparr>amount = 100000, fee = 90\<rparr>
       = Inl EInsufficientBalance
   \<and> repay_flash_loan (example_pool\<lparr>token_a_reserve := 900000\<rparr>) 100090 \<lparr>amount = 100000, fee = 90\<rparr>
       = Inr (example_pool\<lparr>token_a_reserve := 1000090\<rparr>)"
proof -
  have loan: "flash_loan example_pool 100000 =
       Inr (example_pool\<lparr>token_a_reserve := 900000\<rparr>, 100000, \<lparr>amount = 100000, fee = 90\<rparr>)"
    by (simp add: flash_loan_def example_pool_def u64_div_def u64_mul_def assert_that_def
        balance_split_def U64_LIMIT_def)
  have refused: "flash_loan example_pool 100001 = Inl EInsufficientLiquidity"
    using flash_loan_repayment [of example_pool 100001] by (simp add: example_pool_def)
  have short: "repay_flash_loan (example_pool\<lparr>token_a_reserve := 900000\<rparr>) 100089
                 \<lparr>amount = 100000, fee = 90\<rparr> = Inl EInsufficientBalance"
    using flash_loan_repayment [of example_pool 100000 "example_pool\<lparr>token_a_reserve := 900000\<rparr>"
        100000 "\<lparr>amount = 100000, fee = 90\<rparr>" 100089] loan
    by simp
  have full: "repay_flash_loan (example_pool\<lparr>token_a_reserve := 900000\<rparr>) 100090
                 \<lparr>amount = 100000, fee = 90\<rparr> = Inr (example_pool\<lparr>token_a_reserve := 1000090\<rparr>)"
    using flash_loan_repayment [of example_pool 100000 "example_pool\<lparr>token_a_reserve := 900000\<rparr>"
        100000 "\<lparr>amount = 100000, fee = 90\<rparr>" 100090] loan
    by (simp add: example_pool_def)
  from refused loan short full show ?thesis by blast
qed

section \<open>New price feeds\<close>

lemmas oracle_eval = submit_price_def aggregate_prices_def calculate_price_deviation_def
  trigger_circuit_breaker_def vec_map_insert_def into_keys_values_def vector_borrow_def
  assert_that_def u64_add_def u64_sub_def u64_mul_def u64_div_def U64_LIMIT_def
  example_aggregator_def example_feed_def example_breaker_def example_history_def
  example_node_def oracle_init_def MIN_DATA_SOURCES_def MIN_CONFIDENCE_THRESHOLD_def
  MAX_PRICE_DEVIATION_def CIRCUIT_BREAKER_THRESHOLD_def TWAP_WINDOW_SIZE_def

lemma add_price_feed_Inr:
  assumes "add_price_feed aggregator pair_string sender = Inr aggregator'"
  shows "circuit_breakers aggregator' pair_string =
           Some \<lparr>CircuitBreaker.pair = pair_string, is_triggered = False, trigger_price = 0,
                 trigger_timestamp = 0, reset_threshold = MAX_PRICE_DEVIATION div 2,
                 consecutive_anomalies = 0, last_normal_price = 0\<rparr>
       \<and> price_history aggregator' pair_string =
           Some \<lparr>hourly_prices = [], daily_summary = [],
                 max_history_size = TWAP_WINDOW_SIZE * 30, last_cleanup = 0\<rparr>
       \<and> sender = OracleAggregator.admin aggregator
       \<and> supported_pairs aggregator pair_string = None"
  using assms unfolding add_price_feed_def Let_def
  by (auto simp: result_iffs)

text \<open>
  Claim C3, as amended. \<open>add_price_feed\<close> creates a breaker whose reset threshold is
  \<open>MAX_PRICE_DEVIATION / 2\<close>, that is 500 basis points (5 per cent), not tripped and
  with a last normal price of 0, and an empty history of capacity \<open>24 * 30 = 720\<close>. The
  trip threshold is not a field of the breaker: it is the constant
  \<open>CIRCUIT_BREAKER_THRESHOLD\<close> of 2000 basis points that \<open>aggregate_prices\<close> compares
  with.
\<close>

theorem add_price_feed_thresholds:
  assumes "add_price_feed aggregator pair_string sender = Inr aggregator'"
  shows "CIRCUIT_BREAKER_THRESHOLD = 2000
       \<and> (\<exists>breaker. circuit_breakers aggregator' pair_string = Some breaker
              \<and> reset_threshold breaker = 500 \<and> \<not> is_triggered breaker
              \<and> last_normal_price breaker = 0)
       \<and> (\<exists>history. price_history aggregator' pair_string = Some history
              \<and> hourly_prices history = [] \<and> max_history_size history = 720)"
  using add_price_feed_Inr [OF assms]
  by (simp add: CIRCUIT_BREAKER_THRESHOLD_def MAX_PRICE_DEVIATION_def TWAP_WINDOW_SIZE_def)

lemma add_price_feed_example:
  "add_price_feed (oracle_init 1) ''IOTA/USD'' 1 =
     Inr ((oracle_init 1)
            \<lparr>supported_pairs := [''IOTA/USD'' \<mapsto> example_feed],
             price_history := [''IOTA/USD'' \<mapsto> example_history],
             circuit_breakers := [''IOTA/USD'' \<mapsto> example_breaker]\<rparr>)"
  by (simp add: add_price_feed_def oracle_eval)

theorem add_price_feed_thresholds_witness:
  "add_price_feed (oracle_init 1) ''IOTA/USD'' 1 =
     Inr ((oracle_init 1)
            \<lparr>supported_pairs := [''IOTA/USD'' \<mapsto> example_feed],
             price_history := [''IOTA/USD'' \<mapsto> example_history],
             circuit_breakers := [''IOTA/USD'' \<mapsto> example_breaker]\<rparr>)
   \<and> reset_threshold example_breaker = 500 \<and> max_history_size example_history = 720"
  using add_price_feed_thresholds [OF add_price_feed_example] add_price_feed_example
  by simp

text \<open>
  Claim C3 as stated fails: the reset threshold of the breaker that the administrator's
  \<open>add_price_feed\<close> creates on a fresh aggregator is 500, not 1000.
\<close>

theorem add_price_feed_reset_threshold_counterexample:
  "\<not> isl (add_price_feed (oracle_init 1) ''IOTA/USD'' 1)
   \<and> map_option reset_threshold
        (circuit_breakers (projr (add_price_feed (oracle_init 1) ''IOTA/USD'' 1)) ''IOTA/USD'')
       = Some 500
   \<and> (500::nat) \<noteq> 1000"
  unfolding add_price_feed_example by (simp add: example_breaker_def)

section \<open>The aggregation round\<close>

lemma collect_valid_Inr:
  assumes "collect_valid t stale subs (ps, cs, w, n) = Inr (ps', cs', w', n')"
  shows "ps' = ps @ map price (fresh_submissions t stale subs)
       \<and> cs' = cs @ map PriceSubmission.confidence (fresh_submissions t stale subs)
       \<and> w' = w + sum_list (map PriceSubmission.confidence (fresh_submissions t stale subs))
       \<and> n' = n + length (fresh_submissions t stale subs)"
  using assms
proof (induction subs arbitrary: ps cs w n)
  case Nil
  then show ?case by (simp add: fresh_submissions_def)
next
  case (Cons s subs)
  show ?case
  proof (cases "t - PriceSubmission.timestamp s \<le> stale")
    case True
    with Cons.prems have
      "collect_valid t stale subs
         (ps @ [price s], cs @ [PriceSubmission.confidence s],
          w + PriceSubmission.confidence s, n + 1) = Inr (ps', cs', w', n')"
      by (auto simp: result_iffs)
    from Cons.IH [OF this] True show ?thesis by (simp add: fresh_submissions_def)
  next
    case False
    with Cons.prems have "collect_valid t stale subs (ps, cs, w, n) = Inr (ps', cs', w', n')"
      by (auto simp: result_iffs)
    from Cons.IH [OF this] False show ?thesis by (simp add: fresh_submissions_def)
  qed
qed

lemma weigh_prices_Inr:
  assumes "weigh_prices (map price xs) (map PriceSubmission.confidence xs) acc = Inr r"
  shows "r = acc + sum_list (map (\<lambda>s. price s * PriceSubmission.confidence s div 100) xs)"
  using assms
proof (induction xs arbitrary: acc)
  case Nil
  then show ?case by simp
next
  case (Cons s xs)
  from Cons.prems have
    "weigh_prices (map price xs) (map PriceSubmission.confidence xs)
       (acc + price s * PriceSubmission.confidence s div 100) = Inr r"
    by (auto simp: result_iffs)
  from Cons.IH [OF this] show ?case by simp
qed

lemma trigger_circuit_breaker_event:
  "trigger_circuit_breaker aggregator p trigger previous time \<noteq>
     Inr (aggregator', PriceUpdated q new old conf n dev t')"
  by (auto simp: trigger_circuit_breaker_def result_iffs split: option.splits)

lemma aggregate_prices_published:
  assumes run: "aggregate_prices aggregator p t = Inr (aggregator', PriceUpdated q new old conf n dev t')"
    and feed: "supported_pairs aggregator p = Some feed"
  defines "fresh \<equiv> fresh_submissions t (stale_threshold (aggregation_settings aggregator))
                     (map snd (price_sources feed))"
  defines "weight \<equiv> sum_list (map PriceSubmission.confidence fresh)"
  defines "weighted \<equiv> sum_list (map (\<lambda>s. price s * PriceSubmission.confidence s div 100) fresh)"
  shows "n = length fresh" and "min_sources (aggregation_settings aggregator) \<le> n" and "n \<noteq> 0"
    and "new = (if weight > 0 then weighted * 100 div weight else weighted)"
    and "conf = weight div n"
    and "price_sources feed \<noteq> []"
    and "aggregator' = aggregator\<lparr>supported_pairs := (supported_pairs aggregator)(p \<mapsto>
           feed\<lparr>current_price := new, PriceFeed.confidence := conf, last_update := t,
                source_count := n, price_sources := [hd (price_sources feed)]\<rparr>)\<rparr>"
proof -
  let ?subs = "map snd (price_sources feed)"
  let ?stale = "stale_threshold (aggregation_settings aggregator)"
  from run feed obtain r where r: "collect_valid t ?stale ?subs ([], [], 0, 0) = Inr r"
    by (auto simp: aggregate_prices_def into_keys_values_def Let_def abort_bind_Inr_iff)
  obtain ps cs w c where "r = (ps, cs, w, c)" by (cases r)
  with r have collect: "collect_valid t ?stale ?subs ([], [], 0, 0) = Inr (ps, cs, w, c)"
    by simp
  from collect_valid_Inr [OF collect] have
    ps: "ps = map price fresh" and cs: "cs = map PriceSubmission.confidence fresh"
    and w: "w = weight" and c: "c = length fresh"
    by (simp_all add: fresh_def weight_def)
  from run feed collect obtain ws where
    enough: "min_sources (aggregation_settings aggregator) \<le> c"
    and weigh: "weigh_prices ps cs 0 = Inr ws"
    by (auto simp: aggregate_prices_def into_keys_values_def Let_def abort_bind_Inr_iff
        assert_that_Inr_iff)
  from weigh_prices_Inr [OF weigh [unfolded ps cs]] have ws: "ws = weighted"
    by (simp add: weighted_def)
  from run feed collect weigh enough show "n = length fresh"
    "min_sources (aggregation_settings aggregator) \<le> n" "n \<noteq> 0"
    "new = (if weight > 0 then weighted * 100 div weight else weighted)"
    "conf = weight div n" "price_sources feed \<noteq> []"
    "aggregator' = aggregator\<lparr>supported_pairs := (supported_pairs aggregator)(p \<mapsto>
           feed\<lparr>current_price := new, PriceFeed.confidence := conf, last_update := t,
                source_count := n, price_sources := [hd (price_sources feed)]\<rparr>)\<rparr>"
    unfolding aggregate_prices_def into_keys_values_def Let_def w c ws
    by (auto simp: result_iffs trigger_circuit_breaker_event vector_borrow_def vec_map_insert_def
        hd_conv_nth hd_map split: if_splits)
qed


lemma map_upd_same_eq: "m(k \<mapsto> a) = m(k \<mapsto> b) \<longleftrightarrow> a = b"
  by (auto dest: map_upd_eqD1)

lemma quorum_round:
  "aggregate_prices quorum_aggregator ''IOTA/USD'' 1000 =
     Inr (quorum_aggregator\<lparr>supported_pairs := [''IOTA/USD'' \<mapsto> example_feed
            \<lparr>current_price := 99, PriceFeed.confidence := 50, last_update := 1000,
             source_count := 3, price_sources := [(11, example_submission 99)]\<rparr>]\<rparr>,
          PriceUpdated ''IOTA/USD'' 99 0 50 3 0 1000)"
  by (simp add: quorum_aggregator_def example_submission_def oracle_eval map_upd_same_eq)

lemma quorum_feed:
  "supported_pairs quorum_aggregator ''IOTA/USD'' =
     Some (example_feed\<lparr>price_sources := [(11, example_submission 99), (12, example_submission 100),
                                           (13, example_submission 101)]\<rparr>)"
  by (simp add: quorum_aggregator_def)

lemma quorum_fresh:
  "fresh_submissions 1000 (stale_threshold (aggregation_settings quorum_aggregator))
     (map snd (price_sources (example_feed\<lparr>price_sources :=
        [(11, example_submission 99), (12, example_submission 100), (13, example_submission 101)]\<rparr>)))
   = [example_submission 99, example_submission 100, example_submission 101]"
  by (simp add: fresh_submissions_def example_submission_def)

text \<open>
  Claim C6, as amended. A round that publishes has at least \<open>min_sources\<close> submissions
  that are not stale. With a positive total confidence the published price is
  \<open>(\<Sum> floor (price_i * confidence_i / 100)) * 100 / \<Sum> confidence_i\<close>: every product is
  truncated before it is added, and the rescaled sum is truncated once more. The
  published confidence is \<open>\<Sum> confidence_i / source_count\<close>, truncated, both sums over
  the submissions that are not stale.
\<close>

theorem aggregate_prices_weighted_price:
  assumes run: "aggregate_prices aggregator p t = Inr (aggregator', PriceUpdated q new old conf n dev t')"
    and feed: "supported_pairs aggregator p = Some feed"
    and fresh: "fresh = fresh_submissions t (stale_threshold (aggregation_settings aggregator))
                          (map snd (price_sources feed))"
    and positive: "0 < sum_list (map PriceSubmission.confidence fresh)"
  shows "min_sources (aggregation_settings aggregator) \<le> length fresh
       \<and> n = length fresh
       \<and> new = sum_list (map (\<lambda>s. price s * PriceSubmission.confidence s div 100) fresh) * 100
                  div sum_list (map PriceSubmission.confidence fresh)
       \<and> conf = sum_list (map PriceSubmission.confidence fresh) div length fresh
       \<and> (\<exists>feed'. supported_pairs aggregator' p = Some feed'
              \<and> current_price feed' = new \<and> PriceFeed.confidence feed' = conf
              \<and> source_count feed' = n)"
proof -
  note facts = aggregate_prices_published [OF run feed, folded fresh]
  from facts(1,2) have "min_sources (aggregation_settings aggregator) \<le> length fresh"
    and "n = length fresh" by simp_all
  moreover from facts(4) positive have
    "new = sum_list (map (\<lambda>s. price s * PriceSubmission.confidence s div 100) fresh) * 100
             div sum_list (map PriceSubmission.confidence fresh)" by simp
  moreover from facts(5,1) have
    "conf = sum_list (map PriceSubmission.confidence fresh) div length fresh" by simp
  moreover from facts(7) have
    "\<exists>feed'. supported_pairs aggregator' p = Some feed'
       \<and> current_price feed' = new \<and> PriceFeed.confidence feed' = conf \<and> source_count feed' = n"
    by simp
  ultimately show ?thesis by blast
qed

theorem aggregate_prices_weighted_price_witness:
  "aggregate_prices quorum_aggregator ''IOTA/USD'' 1000 =
     Inr (quorum_aggregator\<lparr>supported_pairs := [''IOTA/USD'' \<mapsto> example_feed
            \<lparr>current_price := 99, PriceFeed.confidence := 50, last_update := 1000,
             source_count := 3, price_sources := [(11, example_submission 99)]\<rparr>]\<rparr>,
          PriceUpdated ''IOTA/USD'' 99 0 50 3 0 1000)
   \<and> (0::nat) < sum_list (map PriceSubmission.confidence
         [example_submission 99, example_submission 100, example_submission 101])
   \<and> (99::nat) = sum_list (map (\<lambda>s. price s * PriceSubmission.confidence s div 100)
         [example_submission 99, example_submission 100, example_submission 101]) * 100
       div sum_list (map PriceSubmission.confidence
         [example_submission 99, example_submission 100, example_submission 101])
   \<and> (50::nat) = sum_list (map PriceSubmission.confidence
         [example_submission 99, example_submission 100, example_submission 101]) div 3"
proof -
  have positive: "(0::nat) < sum_list (map PriceSubmission.confidence
         [example_submission 99, example_submission 100, example_submission 101])"
    by (simp add: example_submission_def)
  have len: "length [example_submission 99, example_submission 100, example_submission 101] = 3"
    by simp
  note round = aggregate_prices_weighted_price
    [OF quorum_round quorum_feed quorum_fresh [symmetric] positive, unfolded len]
  from round have published: "(99::nat) = sum_list (map (\<lambda>s. price s * PriceSubmission.confidence s div 100)
         [example_submission 99, example_submission 100, example_submission 101]) * 100
       div sum_list (map PriceSubmission.confidence
         [example_submission 99, example_submission 100, example_submission 101])"
    by (rule conjunct1 [OF conjunct2 [OF conjunct2]])
  from round have averaged: "(50::nat) = sum_list (map PriceSubmission.confidence
         [example_submission 99, example_submission 100, example_submission 101]) div 3"
    by (rule conjunct1 [OF conjunct2 [OF conjunct2 [OF conjunct2]]])
  from quorum_round positive published averaged show ?thesis by (intro conjI)
qed

section \<open>A round through the public entry point\<close>


text \<open>The three submissions that lead to the round.\<close>

lemma first_submission:
  "submit_price example_aggregator ''IOTA/USD'' 99 50 ''feed-a'' 1000 11 = Inr (after_first, None)"
  by (simp add: after_first_def oracle_eval)


lemma third_submission:
  "submit_price after_second ''IOTA/USD'' 101 50 ''feed-c'' 1000 13 =
     Inr (after_round, Some (PriceUpdated ''IOTA/USD'' 99 0 50 3 0 1000))"
  by (simp add: after_round_def after_second_def after_first_def oracle_eval)

lemma after_round_feed:
  "supported_pairs after_round ''IOTA/USD'' =
     Some (example_feed\<lparr>current_price := 99, PriceFeed.confidence := 50, last_update := 1000,
             source_count := 3,
             price_sources := [(11, \<lparr>price = 99, PriceSubmission.confidence = 50,
                                     PriceSubmission.timestamp = 1000, source_id = ''feed-a'',
                                     signature_hash = []\<rparr>)]\<rparr>)"
  by (simp add: after_round_def after_second_def after_first_def oracle_eval)

lemma after_round_history:
  "price_history after_round ''IOTA/USD'' = Some example_history"
  by (simp add: after_round_def after_second_def after_first_def oracle_eval)


text \<open>
  Claim C6 as stated fails. Reporters 11 and 12 have submitted 99 and 100; the
  submission of 101 by reporter 13, all with confidence 50, completes the round. The
  products divided by 100 are 49, 50 and 50, so the round publishes
  \<open>149 * 100 / 150 = 99\<close>, where one truncation after the whole sum gives
  \<open>150 * 100 / 150 = 100\<close>.
\<close>

theorem weighted_price_truncation_counterexample:
  "submit_price after_second ''IOTA/USD'' 101 50 ''feed-c'' 1000 13 =
     Inr (after_round, Some (PriceUpdated ''IOTA/USD'' 99 0 50 3 0 1000))
   \<and> map_option current_price (supported_pairs after_round ''IOTA/USD'') = Some 99
   \<and> specified_weighted_price
        [\<lparr>price = 99, PriceSubmission.confidence = 50, PriceSubmission.timestamp = 1000,
          source_id = ''feed-a'', signature_hash = []\<rparr>,
         \<lparr>price = 100, PriceSubmission.confidence = 50, PriceSubmission.timestamp = 1000,
          source_id = ''feed-b'', signature_hash = []\<rparr>,
         \<lparr>price = 101, PriceSubmission.confidence = 50, PriceSubmission.timestamp = 1000,
          source_id = ''feed-c'', signature_hash = []\<rparr>] = 100"
  by (simp add: third_submission after_round_feed specified_weighted_price_def)

text \<open>
  Claim C5 fails on the code. The same round publishes 99, and afterwards the buffer of
  the pair is not empty: it holds the submission of reporter 11, which the round has
  just consumed, because \<open>aggregate_prices\<close> inserts entry 0 of the old buffer again
  after emptying it.
\<close>

theorem published_round_keeps_first_submission:
  "submit_price after_second ''IOTA/USD'' 101 50 ''feed-c'' 1000 13 =
     Inr (after_round, Some (PriceUpdated ''IOTA/USD'' 99 0 50 3 0 1000))
   \<and> map_option price_sources (supported_pairs after_round ''IOTA/USD'') =
       Some [(11, \<lparr>price = 99, PriceSubmission.confidence = 50,
                    PriceSubmission.timestamp = 1000, source_id = ''feed-a'',
                    signature_hash = []\<rparr>)]"
  by (simp add: third_submission after_round_feed)

section \<open>Duplicate submissions\<close>

lemma submit_price_duplicate:
  assumes feed: "supported_pairs aggregator p = Some feed"
    and dup: "submitter \<in> fst ` set (price_sources feed)"
  shows "\<exists>e. submit_price aggregator p new_price conf source t submitter = Inl e"
proof -
  have insert: "vec_map_insert (price_sources feed) submitter sub = Inl EKeyAlreadyExists" for sub
    using dup by (simp add: vec_map_insert_def)
  show ?thesis
    unfolding submit_price_def Let_def
    by (intro abort_bind_always_Inl)
       (auto simp: feed insert split: option.splits intro!: abort_bind_always_Inl)
qed

lemma submit_price_duplicate_code:
  assumes feed: "supported_pairs aggregator p = Some feed"
    and dup: "submitter \<in> fst ` set (price_sources feed)"
    and checks: "\<not> OracleAggregator.is_paused aggregator" "conf \<le> 100"
      "oracle_nodes aggregator submitter = Some node" "is_authorized node"
      "circuit_breakers aggregator p = Some breaker" "\<not> is_triggered breaker"
  shows "submit_price aggregator p new_price conf source t submitter = Inl EKeyAlreadyExists"
  using assms by (simp add: submit_price_def assert_that_def vec_map_insert_def)

text \<open>
  Claim C9. A \<open>submit_price\<close> by a reporter who already has an entry in the buffer
  of the pair aborts, with \<open>EKeyAlreadyExists\<close> of \<open>vec_map::insert\<close> once the checks
  before the insertion have passed. A round that publishes leaves exactly the first
  entry of its buffer behind, so afterwards every \<open>submit_price\<close> for the pair by the
  reporter of that entry aborts, whatever the price, confidence and time.
\<close>

theorem submit_price_duplicate_reporter:
  "(supported_pairs aggregator p = Some feed \<and> submitter \<in> fst ` set (price_sources feed) \<longrightarrow>
      (\<exists>e. submit_price aggregator p new_price conf source t submitter = Inl e)
      \<and> (\<not> OracleAggregator.is_paused aggregator \<and> conf \<le> 100
           \<and> oracle_nodes aggregator submitter = Some node \<and> is_authorized node
           \<and> circuit_breakers aggregator p = Some breaker \<and> \<not> is_triggered breaker \<longrightarrow>
          submit_price aggregator p new_price conf source t submitter = Inl EKeyAlreadyExists))
   \<and> (aggregate_prices aggregator p t = Inr (aggregator', PriceUpdated q new old avg n dev t')
        \<and> supported_pairs aggregator p = Some feed \<longrightarrow>
        price_sources feed \<noteq> []
        \<and> map_option price_sources (supported_pairs aggregator' p) = Some [hd (price_sources feed)]
        \<and> (\<forall>price' conf' source' time'.
              \<exists>e. submit_price aggregator' p price' conf' source' time' (fst (hd (price_sources feed)))
                     = Inl e))"
proof (intro conjI impI)
  assume a: "supported_pairs aggregator p = Some feed \<and> submitter \<in> fst ` set (price_sources feed)"
  then show "\<exists>e. submit_price aggregator p new_price conf source t submitter = Inl e"
    by (blast intro: submit_price_duplicate)
  assume "\<not> OracleAggregator.is_paused aggregator \<and> conf \<le> 100
           \<and> oracle_nodes aggregator submitter = Some node \<and> is_authorized node
           \<and> circuit_breakers aggregator p = Some breaker \<and> \<not> is_triggered breaker"
  with a show "submit_price aggregator p new_price conf source t submitter = Inl EKeyAlreadyExists"
    by (blast intro: submit_price_duplicate_code)
next
  assume a: "aggregate_prices aggregator p t = Inr (aggregator', PriceUpdated q new old avg n dev t')
        \<and> supported_pairs aggregator p = Some feed"
  then have run: "aggregate_prices aggregator p t = Inr (aggregator', PriceUpdated q new old avg n dev t')"
    and feed: "supported_pairs aggregator p = Some feed" by simp_all
  note facts = aggregate_prices_published [OF run feed]
  show nonempty: "price_sources feed \<noteq> []" by (rule facts(6))
  let ?feed' = "feed\<lparr>current_price := new, PriceFeed.confidence := avg, last_update := t,
                     source_count := n, price_sources := [hd (price_sources feed)]\<rparr>"
  have feed': "supported_pairs aggregator' p = Some ?feed'"
    by (subst facts(7)) simp
  then show "map_option price_sources (supported_pairs aggregator' p) = Some [hd (price_sources feed)]"
    by simp
  have "fst (hd (price_sources feed)) \<in> fst ` set (price_sources ?feed')" by simp
  from submit_price_duplicate [OF feed' this]
  show "\<forall>price' conf' source' time'.
          \<exists>e. submit_price aggregator' p price' conf' source' time' (fst (hd (price_sources feed)))
                 = Inl e"
    by blast
qed


lemma after_round_node:
  "oracle_nodes after_round 11 =
     Some ((example_node 11)\<lparr>total_submissions := 1, last_submission := 1000\<rparr>)"
  by (simp add: after_round_def after_second_def after_first_def oracle_eval)

lemma after_round_breaker:
  "circuit_breakers after_round ''IOTA/USD'' = Some example_breaker"
  by (simp add: after_round_def after_second_def after_first_def oracle_eval)

lemma after_round_running: "\<not> OracleAggregator.is_paused after_round"
  by (simp add: after_round_def after_second_def after_first_def oracle_eval)

theorem submit_price_duplicate_reporter_witness:
  "submit_price after_round ''IOTA/USD'' 104 50 ''feed-a'' 2000 11 = Inl EKeyAlreadyExists
   \<and> aggregate_prices quorum_aggregator ''IOTA/USD'' 1000 =
       Inr (quorum_aggregator\<lparr>supported_pairs := [''IOTA/USD'' \<mapsto> example_feed
              \<lparr>current_price := 99, PriceFeed.confidence := 50, last_update := 1000,
               source_count := 3, price_sources := [(11, example_submission 99)]\<rparr>]\<rparr>,
            PriceUpdated ''IOTA/USD'' 99 0 50 3 0 1000)
   \<and> (\<exists>e. submit_price
              (quorum_aggregator\<lparr>supported_pairs := [''IOTA/USD'' \<mapsto> example_feed
                 \<lparr>current_price := 99, PriceFeed.confidence := 50, last_update := 1000,
                  source_count := 3, price_sources := [(11, example_submission 99)]\<rparr>]\<rparr>)
              ''IOTA/USD'' 104 50 ''feed-a'' 2000 11 = Inl e)"
proof -
  have member: "11 \<in> fst ` set (price_sources
      (example_feed\<lparr>current_price := 99, PriceFeed.confidence := 50, last_update := 1000,
             source_count := 3,
             price_sources := [(11, \<lparr>price = 99, PriceSubmission.confidence = 50,
                                     PriceSubmission.timestamp = 1000, source_id = ''feed-a'',
                                     signature_hash = []\<rparr>)]\<rparr>))"
    by simp
  have authorized: "is_authorized ((example_node 11)\<lparr>total_submissions := 1, last_submission := 1000\<rparr>)"
    by (simp add: example_node_def)
  have calm: "\<not> is_triggered example_breaker" by (simp add: example_breaker_def)
  have bounded: "(50::nat) \<le> 100" by simp
  from submit_price_duplicate_reporter
    [of after_round "''IOTA/USD''" _ 11 104 50 "''feed-a''" 2000 _ example_breaker]
    after_round_feed member after_round_running bounded after_round_node authorized
    after_round_breaker calm
  have rejected: "submit_price after_round ''IOTA/USD'' 104 50 ''feed-a'' 2000 11 = Inl EKeyAlreadyExists"
    by blast
  from submit_price_duplicate_reporter
    [of quorum_aggregator "''IOTA/USD''" _ _ _ _ _ 1000 _ _ _ "''IOTA/USD''" 99 0 50 3 0 1000]
    quorum_round quorum_feed
  have "\<forall>price' conf' source' time'.
          \<exists>e. submit_price
              (quorum_aggregator\<lparr>supported_pairs := [''IOTA/USD'' \<mapsto> example_feed
                 \<lparr>current_price := 99, PriceFeed.confidence := 50, last_update := 1000,
                  source_count := 3, price_sources := [(11, example_submission 99)]\<rparr>]\<rparr>)
              ''IOTA/USD'' price' conf' source' time'
              (fst (hd (price_sources (example_feed\<lparr>price_sources :=
                 [(11, example_submission 99), (12, example_submission 100),
                  (13, example_submission 101)]\<rparr>)))) = Inl e"
    by blast
  then have locked: "\<exists>e. submit_price
              (quorum_aggregator\<lparr>supported_pairs := [''IOTA/USD'' \<mapsto> example_feed
                 \<lparr>current_price := 99, PriceFeed.confidence := 50, last_update := 1000,
                  source_count := 3, price_sources := [(11, example_submission 99)]\<rparr>]\<rparr>)
              ''IOTA/USD'' 104 50 ''feed-a'' 2000 11 = Inl e"
    by simp
  from rejected quorum_round locked show ?thesis by (intro conjI)
qed

section \<open>The price history\<close>

lemma twap_sum_Inr:
  assumes "twap_sum prices acc count = Inr (weight, number)"
  shows "weight = acc + sum_list (map weighted_price prices) \<and> number = count + length prices"
  using assms
proof (induction prices arbitrary: acc count)
  case Nil
  then show ?case by simp
next
  case (Cons b prices)
  from Cons.prems have "twap_sum prices (acc + weighted_price b) (count + 1) = Inr (weight, number)"
    by (auto simp: result_iffs)
  from Cons.IH [OF this] show ?case by simp
qed

lemma calculate_twap_Inr:
  assumes "calculate_twap history hours = Inr twap"
  shows "twap = sum_list (map weighted_price (drop (length (hourly_prices history) - hours) (hourly_prices history)))
                  div length (drop (length (hourly_prices history) - hours) (hourly_prices history))"
proof (cases "hourly_prices history = []")
  case True
  with assms show ?thesis by (simp add: calculate_twap_def)
next
  case False
  let ?window = "drop (length (hourly_prices history) - hours) (hourly_prices history)"
  have start: "(if length (hourly_prices history) > hours
                then length (hourly_prices history) - hours else 0)
               = length (hourly_prices history) - hours"
    by simp
  from assms False obtain r where r: "twap_sum ?window 0 0 = Inr r"
    and rest: "(case r of (acc, count) \<Rightarrow> if count > 0 then u64_div acc count else Inr 0) = Inr twap"
    unfolding calculate_twap_def Let_def start
    by (auto simp: abort_bind_Inr_iff)
  obtain weight number where "r = (weight, number)" by (cases r)
  with r rest twap_sum_Inr [of ?window 0 0 weight number] show ?thesis
    by (auto simp: u64_div_Inr_iff split: if_splits)
qed

lemma aggregate_prices_frame:
  assumes "aggregate_prices aggregator p t = Inr (aggregator', ev)"
  shows "price_history aggregator' = price_history aggregator
       \<and> map_option twap_24h (supported_pairs aggregator' p)
           = map_option twap_24h (supported_pairs aggregator p)"
  using assms unfolding aggregate_prices_def Let_def into_keys_values_def trigger_circuit_breaker_def
  by (auto simp: result_iffs split: option.splits if_splits)

lemma update_twap_Inr:
  assumes run: "update_twap aggregator p new_price t = Inr aggregator'"
    and history: "price_history aggregator p = Some history"
    and feed: "supported_pairs aggregator p = Some feed"
  defines "pushed \<equiv> hourly_prices history @
             [\<lparr>HourlyPrice.timestamp = t, open_price = new_price, high = new_price,
               low = new_price, close = new_price, volume = 0, weighted_price = new_price\<rparr>]"
  defines "kept \<equiv> (if length pushed > max_history_size history then tl pushed else pushed)"
  shows "price_history aggregator' p = Some (history\<lparr>hourly_prices := kept\<rparr>)"
    and "supported_pairs aggregator' p =
           Some (feed\<lparr>twap_24h := sum_list (map weighted_price (drop (length kept - 24) kept))
                                      div length (drop (length kept - 24) kept)\<rparr>)"
proof -
  from run history feed obtain twap where
    twap: "calculate_twap (history\<lparr>hourly_prices := kept\<rparr>) 24 = Inr twap"
    and result: "aggregator' = aggregator
          \<lparr>price_history := (price_history aggregator)(p \<mapsto> history\<lparr>hourly_prices := kept\<rparr>),
           supported_pairs := (supported_pairs aggregator)(p \<mapsto> feed\<lparr>twap_24h := twap\<rparr>)\<rparr>"
    unfolding update_twap_def Let_def pushed_def kept_def
    by (auto simp: abort_bind_Inr_iff)
  from calculate_twap_Inr [OF twap] have
    "twap = sum_list (map weighted_price (drop (length kept - 24) kept))
              div length (drop (length kept - 24) kept)"
    by simp
  with result show "price_history aggregator' p = Some (history\<lparr>hourly_prices := kept\<rparr>)"
    and "supported_pairs aggregator' p =
           Some (feed\<lparr>twap_24h := sum_list (map weighted_price (drop (length kept - 24) kept))
                                      div length (drop (length kept - 24) kept)\<rparr>)"
    by simp_all
qed


text \<open>
  Claim C4, as amended. An aggregation round, whether it publishes or trips the
  breaker, leaves the price history of every pair and the \<open>twap_24h\<close> of the feed as
  they were: the call of \<open>update_twap\<close> is commented out. \<open>update_twap\<close> itself
  appends one hourly bucket, removes the oldest when the length has grown over
  \<open>max_history_size\<close>, and sets \<open>twap_24h\<close> to the truncated mean of the
  \<open>weighted_price\<close> of the last 24 buckets.
\<close>

theorem round_leaves_history_and_twap:
  "(aggregate_prices aggregator p t = Inr (aggregator', ev) \<longrightarrow>
      price_history aggregator' = price_history aggregator
      \<and> map_option twap_24h (supported_pairs aggregator' p)
          = map_option twap_24h (supported_pairs aggregator p))
   \<and> (update_twap aggregator p new_price t = Inr aggregator''
        \<and> price_history aggregator p = Some history \<and> supported_pairs aggregator p = Some feed \<longrightarrow>
        (let pushed = hourly_prices history @
               [\<lparr>HourlyPrice.timestamp = t, open_price = new_price, high = new_price,
                 low = new_price, close = new_price, volume = 0, weighted_price = new_price\<rparr>];
             kept = (if length pushed > max_history_size history then tl pushed else pushed);
             window = drop (length kept - 24) kept
         in price_history aggregator'' p = Some (history\<lparr>hourly_prices := kept\<rparr>)
            \<and> supported_pairs aggregator'' p =
                Some (feed\<lparr>twap_24h := sum_list (map weighted_price window) div length window\<rparr>)))"
proof (intro conjI impI)
  assume "aggregate_prices aggregator p t = Inr (aggregator', ev)"
  from aggregate_prices_frame [OF this]
  show "price_history aggregator' = price_history aggregator"
    and "map_option twap_24h (supported_pairs aggregator' p)
          = map_option twap_24h (supported_pairs aggregator p)"
    by simp_all
next
  assume a: "update_twap aggregator p new_price t = Inr aggregator''
        \<and> price_history aggregator p = Some history \<and> supported_pairs aggregator p = Some feed"
  then have run: "update_twap aggregator p new_price t = Inr aggregator''"
    and history: "price_history aggregator p = Some history"
    and feed: "supported_pairs aggregator p = Some feed"
    by simp_all
  from update_twap_Inr [OF run history feed]
  show "let pushed = hourly_prices history @
               [\<lparr>HourlyPrice.timestamp = t, open_price = new_price, high = new_price,
                 low = new_price, close = new_price, volume = 0, weighted_price = new_price\<rparr>];
             kept = (if length pushed > max_history_size history then tl pushed else pushed);
             window = drop (length kept - 24) kept
         in price_history aggregator'' p = Some (history\<lparr>hourly_prices := kept\<rparr>)
            \<and> supported_pairs aggregator'' p =
                Some (feed\<lparr>twap_24h := sum_list (map weighted_price window) div length window\<rparr>)"
    unfolding Let_def by (intro conjI)
qed

lemma full_history_update:
  "update_twap full_history_aggregator ''IOTA/USD'' 30 300 =
     Inr (full_history_aggregator
            \<lparr>price_history := [''IOTA/USD'' \<mapsto>
               \<lparr>hourly_prices = [example_bucket 200 20, example_bucket 300 30],
                daily_summary = [], max_history_size = 2, last_cleanup = 0\<rparr>],
             supported_pairs := [''IOTA/USD'' \<mapsto> example_feed\<lparr>twap_24h := 25\<rparr>]\<rparr>)"
  by (simp add: update_twap_def calculate_twap_def full_history_aggregator_def example_bucket_def
      oracle_eval map_upd_same_eq numeral_2_eq_2 [symmetric])

theorem round_leaves_history_and_twap_witness:
  "aggregate_prices quorum_aggregator ''IOTA/USD'' 1000 =
     Inr (quorum_aggregator\<lparr>supported_pairs := [''IOTA/USD'' \<mapsto> example_feed
            \<lparr>current_price := 99, PriceFeed.confidence := 50, last_update := 1000,
             source_count := 3, price_sources := [(11, example_submission 99)]\<rparr>]\<rparr>,
          PriceUpdated ''IOTA/USD'' 99 0 50 3 0 1000)
   \<and> price_history (quorum_aggregator\<lparr>supported_pairs := [''IOTA/USD'' \<mapsto> example_feed
            \<lparr>current_price := 99, PriceFeed.confidence := 50, last_update := 1000,
             source_count := 3, price_sources := [(11, example_submission 99)]\<rparr>]\<rparr>)
       = price_history quorum_aggregator
   \<and> update_twap full_history_aggregator ''IOTA/USD'' 30 300 =
     Inr (full_history_aggregator
            \<lparr>price_history := [''IOTA/USD'' \<mapsto>
               \<lparr>hourly_prices = [example_bucket 200 20, example_bucket 300 30],
                daily_summary = [], max_history_size = 2, last_cleanup = 0\<rparr>],
             supported_pairs := [''IOTA/USD'' \<mapsto> example_feed\<lparr>twap_24h := 25\<rparr>]\<rparr>)
   \<and> price_history full_history_aggregator ''IOTA/USD'' =
       Some \<lparr>hourly_prices = [example_bucket 100 10, example_bucket 200 20],
             daily_summary = [], max_history_size = 2, last_cleanup = 0\<rparr>
   \<and> supported_pairs full_history_aggregator ''IOTA/USD'' = Some example_feed
   \<and> supported_pairs
          (full_history_aggregator
            \<lparr>price_history := [''IOTA/USD'' \<mapsto>
               \<lparr>hourly_prices = [example_bucket 200 20, example_bucket 300 30],
                daily_summary = [], max_history_size = 2, last_cleanup = 0\<rparr>],
             supported_pairs := [''IOTA/USD'' \<mapsto> example_feed\<lparr>twap_24h := 25\<rparr>]\<rparr>)
          ''IOTA/USD'' = Some (example_feed\<lparr>twap_24h := 25\<rparr>)"
proof -
  have before: "price_history full_history_aggregator ''IOTA/USD'' =
       Some \<lparr>hourly_prices = [example_bucket 100 10, example_bucket 200 20],
             daily_summary = [], max_history_size = 2, last_cleanup = 0\<rparr>"
    by (simp add: full_history_aggregator_def)
  have feed: "supported_pairs full_history_aggregator ''IOTA/USD'' = Some example_feed"
    by (simp add: full_history_aggregator_def example_aggregator_def)
  from round_leaves_history_and_twap [of quorum_aggregator "''IOTA/USD''" 1000] quorum_round
  have kept: "price_history (quorum_aggregator\<lparr>supported_pairs := [''IOTA/USD'' \<mapsto> example_feed
            \<lparr>current_price := 99, PriceFeed.confidence := 50, last_update := 1000,
             source_count := 3, price_sources := [(11, example_submission 99)]\<rparr>]\<rparr>)
       = price_history quorum_aggregator"
    by blast
  from round_leaves_history_and_twap [of full_history_aggregator "''IOTA/USD''" 300 _ _ 30]
    full_history_update before feed
  have averaged: "supported_pairs
          (full_history_aggregator
            \<lparr>price_history := [''IOTA/USD'' \<mapsto>
               \<lparr>hourly_prices = [example_bucket 200 20, example_bucket 300 30],
                daily_summary = [], max_history_size = 2, last_cleanup = 0\<rparr>],
             supported_pairs := [''IOTA/USD'' \<mapsto> example_feed\<lparr>twap_24h := 25\<rparr>]\<rparr>)
          ''IOTA/USD'' = Some (example_feed\<lparr>twap_24h := 25\<rparr>)"
    by simp
  from quorum_round kept full_history_update before feed averaged show ?thesis by (intro conjI)
qed

lemma after_second_history:
  "price_history after_second ''IOTA/USD'' = Some example_history"
  by (simp add: after_second_def after_first_def oracle_eval)

text \<open>
  Claim C4 as stated fails: the round that publishes 99 starts with an empty history
  and ends with an empty history, and \<open>twap_24h\<close> is still 0.
\<close>

theorem published_round_history_counterexample:
  "submit_price after_second ''IOTA/USD'' 101 50 ''feed-c'' 1000 13 =
     Inr (after_round, Some (PriceUpdated ''IOTA/USD'' 99 0 50 3 0 1000))
   \<and> map_option hourly_prices (price_history after_second ''IOTA/USD'') = Some []
   \<and> map_option hourly_prices (price_history after_round ''IOTA/USD'') = Some []
   \<and> map_option twap_24h (supported_pairs after_round ''IOTA/USD'') = Some 0"
  by (simp add: third_submission after_second_history after_round_history after_round_feed
      example_history_def example_feed_def)

section \<open>Submissions while the breaker is tripped\<close>























end
